theory Spec2Isabelle
  imports Main "HOL-Library.Word"
begin

unbundle bit_operations_syntax

section \<open>Statuses and the ways a call can end\<close>

text \<open>
  The canonical status codes of \<open>absl::Status\<close>. An error is a code with a message;
  \<open>absl::Status\<close> is \<open>None\<close> for \<open>OkStatus()\<close> and \<open>Some\<close> error otherwise, and
  \<open>absl::StatusOr<T>\<close> is a sum with the error on the left.
\<close>

datatype StatusCode =
    kCancelled | kUnknown | kInvalidArgument | kDeadlineExceeded | kNotFound
  | kAlreadyExists | kPermissionDenied | kResourceExhausted | kFailedPrecondition
  | kAborted | kOutOfRange | kUnimplemented | kInternal | kUnavailable | kDataLoss
  | kUnauthenticated

datatype error = Error (code: StatusCode) (message: string)

type_synonym Status = "error option"

type_synonym 'a StatusOr = "error + 'a"

text \<open>
  A C++ call of this file ends in one of four ways: it returns a value (\<open>Ok\<close>), it returns
  a non-OK status to its caller (\<open>Err\<close>), the process is terminated (\<open>Aborts\<close>:
  \<open>LOG(FATAL)\<close>, or a failed map lookup with \<open>at\<close>), or it indexes a vector out of
  range, which C++ leaves undefined (\<open>Undefined\<close>).
\<close>

datatype 'a result = Ok 'a | Err error | Aborts string | Undefined

fun returns_internal_error :: "'a result \<Rightarrow> bool" where
  "returns_internal_error (Err e) = (code e = kInternal)"
| "returns_internal_error _ = False"

fun aborts_process :: "'a result \<Rightarrow> bool" where
  "aborts_process (Aborts m) = True"
| "aborts_process _ = False"

section \<open>The index accessor\<close>

text \<open>
  \<open>PrimitiveType\<close> is declared in \<open>xla_data.proto\<close>; the accessor distinguishes the four
  integer types of its \<open>switch\<close> from every other enumerator, which all take the
  \<open>default\<close> branch.
\<close>

datatype PrimitiveType =
    PRIMITIVE_TYPE_INVALID | PRED
  | S4 | S8 | S16 | S32 | S64
  | U4 | U8 | U16 | U32 | U64
  | F16 | F32 | BF16 | F64 | C64 | C128
  | TUPLE | OPAQUE_TYPE | TOKEN

text \<open>
  Host memory is a map from byte addresses to bytes. \<open>reinterpret_cast<int32_t*>(p)[i]\<close>
  reads the four bytes from \<open>p + 4 * i\<close>, \<open>reinterpret_cast<int64_t*>(p)[i]\<close> the eight
  bytes from \<open>p + 8 * i\<close>; the host is little-endian.
\<close>

type_synonym memory = "int \<Rightarrow> 8 word"

definition load_int32 :: "memory \<Rightarrow> int \<Rightarrow> 32 word" where
  "load_int32 m a =
     ucast (m a) OR push_bit 8 (ucast (m (a + 1))) OR push_bit 16 (ucast (m (a + 2)))
       OR push_bit 24 (ucast (m (a + 3)))"

definition load_int64 :: "memory \<Rightarrow> int \<Rightarrow> 64 word" where
  "load_int64 m a =
     ucast (load_int32 m a) OR push_bit 32 (ucast (load_int32 m (a + 4)))"

record IntegerOperandData =
  iod_element_type :: PrimitiveType
  iod_data :: int

text \<open>
  \<open>IntegerOperandData::get\<close> (the members \<open>element_type_\<close> and \<open>data_\<close> are the fields
  \<open>iod_element_type\<close> and \<open>iod_data\<close>): the \<open>int32_t\<close> read is widened to \<open>int64_t\<close> by sign
  extension (\<open>scast\<close>); the default branch is \<open>LOG(FATAL)\<close>.
\<close>

definition get :: "memory \<Rightarrow> IntegerOperandData \<Rightarrow> int \<Rightarrow> 64 word result" where
  "get m d i =
     (case iod_element_type d of
        S32 \<Rightarrow> Ok (scast (load_int32 m (iod_data d + 4 * i)))
      | U32 \<Rightarrow> Ok (scast (load_int32 m (iod_data d + 4 * i)))
      | S64 \<Rightarrow> Ok (load_int64 m (iod_data d + 8 * i))
      | U64 \<Rightarrow> Ok (load_int64 m (iod_data d + 8 * i))
      | _ \<Rightarrow> Aborts ''Unsupported element type'')"

definition supported_index_type :: "PrimitiveType \<Rightarrow> bool" where
  "supported_index_type t = (t = S32 \<or> t = U32 \<or> t = S64 \<or> t = U64)"

text \<open>
  The value an index array of the given element type holds at position \<open>i\<close>, by the
  meaning of the type: a signed type is read in two's complement, an unsigned type as a
  natural number.
\<close>

definition logical_value :: "memory \<Rightarrow> PrimitiveType \<Rightarrow> int \<Rightarrow> int \<Rightarrow> int option" where
  "logical_value m t p i =
     (if t = S32 then Some (sint (load_int32 m (p + 4 * i)))
      else if t = U32 then Some (uint (load_int32 m (p + 4 * i)))
      else if t = S64 then Some (sint (load_int64 m (p + 8 * i)))
      else if t = U64 then Some (uint (load_int64 m (p + 8 * i)))
      else None)"

section \<open>Device buffers, collaborator calls and the world\<close>

text \<open>
  \<open>se::DeviceMemoryBase\<close> is an address with a size in bytes. \<open>DeviceBufferPair\<close> is declared
  in the collective thunk's header; the fields this file reads are the four below.
\<close>

datatype DeviceMemoryBase = DeviceMemoryBase (opaque: int) (size_bytes: nat)

record DeviceBufferPair =
  element_type :: PrimitiveType
  element_count :: int
  source_buffer :: DeviceMemoryBase
  destination_buffer :: DeviceMemoryBase

text \<open>
  \<open>collectives->Slice(buffer, type, offset, count)\<close> is kept as the term of its arguments:
  the slice of \<open>count\<close> elements of \<open>buffer\<close> from element \<open>offset\<close>.
\<close>

datatype DeviceSlice = Slice DeviceMemoryBase PrimitiveType "64 word" "64 word"

definition slice_elements :: "DeviceSlice \<Rightarrow> int set" where
  "slice_elements s = (case s of Slice b t off cnt \<Rightarrow> {sint off ..< sint off + sint cnt})"

text \<open>The calls made on the stream, the collectives and the communicator, in the order made.\<close>

datatype event =
    MaybeRegisterBuffers
  | NumRanks
  | Memcpy int DeviceMemoryBase nat
  | BlockHostUntilDone
  | GroupStart
  | Send DeviceSlice PrimitiveType "64 word" nat
  | Recv DeviceSlice PrimitiveType "64 word" nat
  | GroupEnd

fun is_transfer :: "event \<Rightarrow> bool" where
  "is_transfer (Send s t n peer) = True"
| "is_transfer (Recv s t n peer) = True"
| "is_transfer _ = False"

fun is_copy :: "event \<Rightarrow> bool" where
  "is_copy (Memcpy dst src n) = True"
| "is_copy _ = False"

text \<open>
  What the collaborators answer: the status of each call (a \<open>Memcpy\<close> by the index of the
  buffer copied, a \<open>Send\<close> or \<open>Recv\<close> by its peer), the contents of device memory, and the
  stream's address as \<open>%p\<close> prints it.
\<close>

record collaborators =
  MaybeRegisterBuffers_status :: Status
  NumRanks_result :: "32 word StatusOr"
  Memcpy_status :: "nat \<Rightarrow> Status"
  BlockHostUntilDone_status :: Status
  GroupStart_status :: Status
  Send_status :: "nat \<Rightarrow> Status"
  Recv_status :: "nat \<Rightarrow> Status"
  GroupEnd_status :: Status
  device_memory :: memory
  stream_ptr :: string

record world =
  trace :: "event list"
  host :: memory

definition issue :: "event \<Rightarrow> world \<Rightarrow> world" where
  "issue e w = w\<lparr>trace := trace w @ [e]\<rparr>"

definition copy_to_host :: "memory \<Rightarrow> int \<Rightarrow> DeviceMemoryBase \<Rightarrow> nat \<Rightarrow> memory \<Rightarrow> memory" where
  "copy_to_host dev dst src n m =
     (\<lambda>a. if dst \<le> a \<and> a < dst + int n then dev (opaque src + (a - dst)) else m a)"

definition byte_range :: "int \<Rightarrow> nat \<Rightarrow> int set" where
  "byte_range dst n = {dst ..< dst + int n}"

section \<open>Staging the index arrays\<close>

text \<open>
  The loop of \<open>LoadOffsetAndSizeOperands\<close>, from \<open>i = 2\<close>: a copy of the whole source buffer
  of binding \<open>i\<close> to \<open>host_buffer_alloc\<close>, an accessor of the binding's element type over
  that address, and the pointer, an \<open>int64_t*\<close>, advanced by \<open>num_elements\<close> words of eight
  bytes. A copy that the stream accepts is written to host memory at once (the values are
  read only after the wait); a copy that the stream refuses returns its status and writes
  nothing.
\<close>

function load_loop ::
  "collaborators \<Rightarrow> DeviceBufferPair list \<Rightarrow> int \<Rightarrow> nat \<Rightarrow> int \<Rightarrow> IntegerOperandData list
     \<Rightarrow> world \<Rightarrow> IntegerOperandData list result \<times> world" where
  "load_loop c buffers num_elements i host_buffer_alloc indices w =
     (if i < length buffers then
        (case Memcpy_status c i of
           Some e \<Rightarrow>
             (Err e,
              issue (Memcpy host_buffer_alloc (source_buffer (buffers ! i))
                (size_bytes (source_buffer (buffers ! i)))) w)
         | None \<Rightarrow>
             load_loop c buffers num_elements (i + 1) (host_buffer_alloc + 8 * num_elements)
               (indices @ [\<lparr>iod_element_type = element_type (buffers ! i),
                            iod_data = host_buffer_alloc\<rparr>])
               ((issue (Memcpy host_buffer_alloc (source_buffer (buffers ! i))
                   (size_bytes (source_buffer (buffers ! i)))) w)
                \<lparr>host := copy_to_host (device_memory c) host_buffer_alloc
                   (source_buffer (buffers ! i)) (size_bytes (source_buffer (buffers ! i)))
                   (host w)\<rparr>))
      else (Ok indices, w))"
  by pat_completeness auto
termination
  by (relation "measure (\<lambda>(c, buffers, num_elements, i, rest). length buffers - i)") auto

declare load_loop.simps [simp del]

text \<open>
  \<open>buffers[2]\<close> is read before the loop: with fewer than three bindings the read is out of
  range. A failed wait is returned as an internal error that carries the wait's message.
\<close>

definition LoadOffsetAndSizeOperands ::
  "collaborators \<Rightarrow> DeviceBufferPair list \<Rightarrow> int \<Rightarrow> world
     \<Rightarrow> IntegerOperandData list result \<times> world" where
  "LoadOffsetAndSizeOperands c buffers host_buffer_alloc w =
     (if length buffers \<le> 2 then (Undefined, w)
      else
        (case load_loop c buffers (element_count (buffers ! 2)) 2 host_buffer_alloc [] w of
           (Ok indices, w1) \<Rightarrow>
             (case BlockHostUntilDone_status c of
                Some blocked \<Rightarrow>
                  (Err (Error kInternal
                     (''Failed to complete all kernels launched on stream '' @ stream_ptr c
                        @ '': '' @ message blocked)),
                   issue BlockHostUntilDone w1)
              | None \<Rightarrow> (Ok indices, issue BlockHostUntilDone w1))
         | (Err e, w1) \<Rightarrow> (Err e, w1)
         | (Aborts m, w1) \<Rightarrow> (Aborts m, w1)
         | (Undefined, w1) \<Rightarrow> (Undefined, w1)))"

section \<open>The peer loop and the transfer\<close>

text \<open>
  One iteration reads the four index arrays at \<open>peer\<close>, builds the two slices of the
  payload binding and calls \<open>Send\<close>, then \<open>Recv\<close>; a non-OK status returns at once. The
  products are \<open>int64_t\<close> products. \<open>num_ranks\<close> is the loop bound, a negative
  \<open>int32_t\<close> count being no iteration at all.
\<close>

definition read_indices ::
  "memory \<Rightarrow> IntegerOperandData \<Rightarrow> IntegerOperandData \<Rightarrow> IntegerOperandData
     \<Rightarrow> IntegerOperandData \<Rightarrow> int \<Rightarrow> (64 word \<times> 64 word \<times> 64 word \<times> 64 word) result" where
  "read_indices m input_offsets send_sizes output_offsets recv_sizes peer =
     (case get m input_offsets peer of
        Ok io \<Rightarrow>
          (case get m send_sizes peer of
             Ok ss \<Rightarrow>
               (case get m output_offsets peer of
                  Ok oo \<Rightarrow>
                    (case get m recv_sizes peer of
                       Ok rs \<Rightarrow> Ok (io, ss, oo, rs)
                     | Err e \<Rightarrow> Err e | Aborts msg \<Rightarrow> Aborts msg | Undefined \<Rightarrow> Undefined)
                | Err e \<Rightarrow> Err e | Aborts msg \<Rightarrow> Aborts msg | Undefined \<Rightarrow> Undefined)
           | Err e \<Rightarrow> Err e | Aborts msg \<Rightarrow> Aborts msg | Undefined \<Rightarrow> Undefined)
      | Err e \<Rightarrow> Err e | Aborts msg \<Rightarrow> Aborts msg | Undefined \<Rightarrow> Undefined)"

definition send_event :: "64 word \<Rightarrow> DeviceBufferPair \<Rightarrow> 64 word \<Rightarrow> 64 word \<Rightarrow> nat \<Rightarrow> event" where
  "send_event ragged_row_element_size data_buffer io ss peer =
     Send (Slice (source_buffer data_buffer) (element_type data_buffer)
             (io * ragged_row_element_size) (ss * ragged_row_element_size))
       (element_type data_buffer) (ss * ragged_row_element_size) peer"

definition recv_event :: "64 word \<Rightarrow> DeviceBufferPair \<Rightarrow> 64 word \<Rightarrow> 64 word \<Rightarrow> nat \<Rightarrow> event" where
  "recv_event ragged_row_element_size data_buffer oo rs peer =
     Recv (Slice (destination_buffer data_buffer) (element_type data_buffer)
             (oo * ragged_row_element_size) (rs * ragged_row_element_size))
       (element_type data_buffer) (rs * ragged_row_element_size) peer"

function peer_loop ::
  "collaborators \<Rightarrow> 64 word \<Rightarrow> DeviceBufferPair \<Rightarrow> IntegerOperandData \<Rightarrow> IntegerOperandData
     \<Rightarrow> IntegerOperandData \<Rightarrow> IntegerOperandData \<Rightarrow> nat \<Rightarrow> nat \<Rightarrow> world
     \<Rightarrow> unit result \<times> world" where
  "peer_loop c ragged_row_element_size data_buffer input_offsets send_sizes output_offsets
       recv_sizes peer num_ranks w =
     (if peer < num_ranks then
        (case read_indices (host w) input_offsets send_sizes output_offsets recv_sizes
                (int peer) of
           Ok (io, ss, oo, rs) \<Rightarrow>
             (case Send_status c peer of
                Some e \<Rightarrow>
                  (Err e, issue (send_event ragged_row_element_size data_buffer io ss peer) w)
              | None \<Rightarrow>
                  (case Recv_status c peer of
                     Some e \<Rightarrow>
                       (Err e,
                        issue (recv_event ragged_row_element_size data_buffer oo rs peer)
                          (issue (send_event ragged_row_element_size data_buffer io ss peer) w))
                   | None \<Rightarrow>
                       peer_loop c ragged_row_element_size data_buffer input_offsets send_sizes
                         output_offsets recv_sizes (peer + 1) num_ranks
                         (issue (recv_event ragged_row_element_size data_buffer oo rs peer)
                            (issue (send_event ragged_row_element_size data_buffer io ss peer)
                               w))))
         | Err e \<Rightarrow> (Err e, w)
         | Aborts msg \<Rightarrow> (Aborts msg, w)
         | Undefined \<Rightarrow> (Undefined, w))
      else (Ok (), w))"
  by pat_completeness auto
termination
  by (relation "measure (\<lambda>(c, r, b, io, ss, oo, rs, peer, num_ranks, w). num_ranks - peer)") auto

declare peer_loop.simps [simp del]

text \<open>
  \<open>RunRaggedAllToAll\<close>. The accessors are \<open>index_operands[0]\<close> to \<open>index_operands[3]\<close>: with
  fewer than four staged arrays the vector is indexed out of range. The payload is
  \<open>buffers[0]\<close>.
\<close>

definition RunRaggedAllToAll ::
  "collaborators \<Rightarrow> 64 word \<Rightarrow> DeviceBufferPair list \<Rightarrow> int \<Rightarrow> world \<Rightarrow> unit result \<times> world" where
  "RunRaggedAllToAll c ragged_row_element_size buffers host_buffer_alloc w =
     (case MaybeRegisterBuffers_status c of
        Some e \<Rightarrow> (Err e, issue MaybeRegisterBuffers w)
      | None \<Rightarrow>
          (case NumRanks_result c of
             Inl e \<Rightarrow> (Err e, issue NumRanks (issue MaybeRegisterBuffers w))
           | Inr num_ranks \<Rightarrow>
               (case LoadOffsetAndSizeOperands c buffers host_buffer_alloc
                       (issue NumRanks (issue MaybeRegisterBuffers w)) of
                  (Ok index_operands, w1) \<Rightarrow>
                    (if length index_operands < 4 then (Undefined, w1)
                     else
                       (case GroupStart_status c of
                          Some e \<Rightarrow> (Err e, issue GroupStart w1)
                        | None \<Rightarrow>
                            (case peer_loop c ragged_row_element_size (buffers ! 0)
                                    (index_operands ! 0) (index_operands ! 1)
                                    (index_operands ! 2) (index_operands ! 3) 0
                                    (nat (sint num_ranks)) (issue GroupStart w1) of
                               (Ok u, w2) \<Rightarrow>
                                 (case GroupEnd_status c of
                                    Some e \<Rightarrow> (Err e, issue GroupEnd w2)
                                  | None \<Rightarrow> (Ok (), issue GroupEnd w2))
                             | (Err e, w2) \<Rightarrow> (Err e, w2)
                             | (Aborts m, w2) \<Rightarrow> (Aborts m, w2)
                             | (Undefined, w2) \<Rightarrow> (Undefined, w2))))
                | (Err e, w1) \<Rightarrow> (Err e, w1)
                | (Aborts m, w1) \<Rightarrow> (Aborts m, w1)
                | (Undefined, w1) \<Rightarrow> (Undefined, w1))))"

section \<open>The host staging buffer cache\<close>

text \<open>
  The thunk's configuration and its map \<open>host_buffer_allocs_\<close> from executors to host
  allocations. \<open>allocations\<close> lists the calls of \<open>HostMemoryAllocate\<close> made so far, each
  with its executor and the size asked for. The mutex makes each call below one step.
\<close>

record NcclRaggedAllToAllConfig =
  num_ragged_rows :: "64 word"
  ragged_row_element_size :: "64 word"

record MemoryAllocation =
  allocation_opaque :: int
  allocation_size :: "64 word"

record thunk_state =
  host_buffer_allocs :: "nat \<rightharpoonup> MemoryAllocation"
  allocations :: "(nat \<times> 64 word) list"

text \<open>
  The parameters of one \<open>Initialize\<close> call: the executor, and what the two collaborators
  answer in this call (the base class's \<open>Initialize\<close> and the executor's
  \<open>HostMemoryAllocate\<close>).
\<close>

record InitializeParams =
  executor :: nat
  NcclCollectiveThunk_Initialize_status :: Status
  HostMemoryAllocate_result :: "64 word \<Rightarrow> MemoryAllocation StatusOr"

definition Initialize ::
  "NcclRaggedAllToAllConfig \<Rightarrow> InitializeParams \<Rightarrow> thunk_state \<Rightarrow> Status \<times> thunk_state" where
  "Initialize config params s =
     (case NcclCollectiveThunk_Initialize_status params of
        Some e \<Rightarrow> (Some e, s)
      | None \<Rightarrow>
          (case host_buffer_allocs s (executor params) of
             None \<Rightarrow>
               (case HostMemoryAllocate_result params (4 * num_ragged_rows config * 8) of
                  Inl e \<Rightarrow>
                    (Some e,
                     s\<lparr>allocations :=
                         allocations s @ [(executor params, 4 * num_ragged_rows config * 8)]\<rparr>)
                | Inr allocation \<Rightarrow>
                    (None,
                     s\<lparr>allocations :=
                         allocations s @ [(executor params, 4 * num_ragged_rows config * 8)],
                       host_buffer_allocs :=
                         (host_buffer_allocs s)(executor params \<mapsto> allocation)\<rparr>))
           | Some it \<Rightarrow> (None, s)))"

text \<open>
  The parameters of one run: what \<open>ConvertToDeviceBuffers\<close> and \<open>GetGpuCollectives\<close>
  answer, and the executor of the stream. \<open>host_buffer_allocs_.at(...)\<close> has no entry to
  return for an executor that is not a key: the lookup throws \<open>std::out_of_range\<close>, which
  nothing here catches (and terminates at once where exceptions are disabled), so the call
  ends the process and returns no status.
\<close>

record ExecuteParams =
  ConvertToDeviceBuffers_result :: "DeviceBufferPair list StatusOr"
  GetGpuCollectives_status :: Status
  stream_parent :: nat

definition RunNcclCollective ::
  "NcclRaggedAllToAllConfig \<Rightarrow> thunk_state \<Rightarrow> ExecuteParams \<Rightarrow> collaborators \<Rightarrow> world
     \<Rightarrow> unit result \<times> world" where
  "RunNcclCollective config s params c w =
     (case ConvertToDeviceBuffers_result params of
        Inl e \<Rightarrow> (Err e, w)
      | Inr device_buffers \<Rightarrow>
          (case GetGpuCollectives_status params of
             Some e \<Rightarrow> (Err e, w)
           | None \<Rightarrow>
               (case host_buffer_allocs s (stream_parent params) of
                  None \<Rightarrow> (Aborts ''out_of_range'', w)
                | Some allocation \<Rightarrow>
                    RunRaggedAllToAll c (ragged_row_element_size config) device_buffers
                      (allocation_opaque allocation) w)))"

section \<open>Validation of the operands\<close>

record Shape =
  shape_element_type :: PrimitiveType
  dimensions :: "int list"

text \<open>
  Modelled from the spec: \<open>IsValidOperand\<close>, whose body is not in this file. It accepts a
  shape that is an acceptable operand shape for the collective kind, and answers with an
  \<open>InvalidArgument\<close> error naming the operand otherwise. Which shapes are acceptable and
  how a shape is printed are parameters.
\<close>

definition IsValidOperand :: "(Shape \<Rightarrow> bool) \<Rightarrow> (Shape \<Rightarrow> string) \<Rightarrow> Shape \<Rightarrow> Status" where
  "IsValidOperand acceptable ToString shape =
     (if acceptable shape then None
      else Some (Error kInvalidArgument (''invalid operand: '' @ ToString shape)))"

text \<open>
  Modelled from the spec: \<open>AddOpDescription\<close>, whose body is not in this file. An OK status
  stays OK; an error keeps its class and its message, followed by a description of the
  operation.
\<close>

definition AddOpDescription :: "Status \<Rightarrow> string \<Rightarrow> Status" where
  "AddOpDescription status description =
     (case status of
        None \<Rightarrow> None
      | Some e \<Rightarrow> Some (Error (code e) (message e @ description)))"

text \<open>
  The lambda of \<open>CheckImplementable\<close>: the operands in order, returning at the first one
  that is not valid. The second component lists the shapes that were checked.
\<close>

fun check_operands :: "(Shape \<Rightarrow> Status) \<Rightarrow> Shape list \<Rightarrow> Shape list \<Rightarrow> Status \<times> Shape list" where
  "check_operands valid [] checked = (None, checked)"
| "check_operands valid (shape # rest) checked =
     (case valid shape of
        Some e \<Rightarrow> (Some e, checked @ [shape])
      | None \<Rightarrow> check_operands valid rest (checked @ [shape]))"

text \<open>
  \<open>CheckImplementable\<close> takes the instruction (its operands' shapes) and the two counts;
  it has no thunk, stream or device memory among its arguments. \<open>describe\<close> prints the
  operation with its counts.
\<close>

record HloRaggedAllToAllInstruction =
  operands :: "Shape list"

definition CheckImplementable ::
  "(Shape \<Rightarrow> Status) \<Rightarrow> (HloRaggedAllToAllInstruction \<Rightarrow> int \<Rightarrow> int \<Rightarrow> string)
     \<Rightarrow> HloRaggedAllToAllInstruction \<Rightarrow> int \<Rightarrow> int \<Rightarrow> Status \<times> Shape list" where
  "CheckImplementable valid describe instr replica_count partition_count =
     (case check_operands valid (operands instr) [] of
        (status, checked) \<Rightarrow>
          (AddOpDescription status (describe instr replica_count partition_count), checked))"

section \<open>Notions used in the statements\<close>

text \<open>The events a call added to the trace.\<close>

definition new_events :: "world \<Rightarrow> world \<Rightarrow> event list" where
  "new_events w w' = drop (length (trace w)) (trace w')"

text \<open>
  The element of a binding's source array in device memory at an index, read as the
  accessor reads a staged copy of it.
\<close>

definition device_array :: "collaborators \<Rightarrow> DeviceBufferPair \<Rightarrow> int \<Rightarrow> 64 word result" where
  "device_array c b k =
     get (device_memory c)
       \<lparr>iod_element_type = element_type b, iod_data = opaque (source_buffer b)\<rparr> k"

text \<open>The stride of \<open>get\<close> on a supported element type.\<close>

definition index_width :: "PrimitiveType \<Rightarrow> nat" where
  "index_width t = (if t = S32 \<or> t = U32 then 4 else 8)"

text \<open>Host memory after the four copies of a run with six bindings.\<close>

definition staged_host ::
  "memory \<Rightarrow> int \<Rightarrow> int \<Rightarrow> DeviceMemoryBase \<Rightarrow> DeviceMemoryBase \<Rightarrow> DeviceMemoryBase
     \<Rightarrow> DeviceMemoryBase \<Rightarrow> memory \<Rightarrow> memory" where
  "staged_host dev n base s2 s3 s4 s5 h =
     copy_to_host dev (base + 8 * n + 8 * n + 8 * n) s5 (size_bytes s5)
       (copy_to_host dev (base + 8 * n + 8 * n) s4 (size_bytes s4)
          (copy_to_host dev (base + 8 * n) s3 (size_bytes s3)
             (copy_to_host dev base s2 (size_bytes s2) h)))"

text \<open>The events of the peer loop over a list of peers, from the values of the four arrays.\<close>

definition peer_events ::
  "64 word \<Rightarrow> DeviceBufferPair \<Rightarrow> (nat \<Rightarrow> 64 word) \<Rightarrow> (nat \<Rightarrow> 64 word) \<Rightarrow> (nat \<Rightarrow> 64 word)
     \<Rightarrow> (nat \<Rightarrow> 64 word) \<Rightarrow> nat list \<Rightarrow> event list" where
  "peer_events rres data_buffer io ss oo rs peers =
     concat (map (\<lambda>k. [send_event rres data_buffer (io k) (ss k) k,
                        recv_event rres data_buffer (oo k) (rs k) k]) peers)"

text \<open>The end of \<open>RunRaggedAllToAll\<close> after the peer loop.\<close>

definition end_group :: "collaborators \<Rightarrow> unit result \<times> world \<Rightarrow> unit result \<times> world" where
  "end_group c rw =
     (case rw of
        (Ok u, w2) \<Rightarrow>
          (case GroupEnd_status c of
             Some e \<Rightarrow> (Err e, issue GroupEnd w2)
           | None \<Rightarrow> (Ok (), issue GroupEnd w2))
      | (Err e, w2) \<Rightarrow> (Err e, w2)
      | (Aborts m, w2) \<Rightarrow> (Aborts m, w2)
      | (Undefined, w2) \<Rightarrow> (Undefined, w2))"

text \<open>
  The four staging copies of a run from \<open>base\<close>: the array of binding \<open>j + 2\<close> goes to byte
  offset \<open>j * num_elements * 8\<close>, with \<open>num_elements\<close> the element count of binding 2.
\<close>

definition staging_copies :: "DeviceBufferPair list \<Rightarrow> int \<Rightarrow> event list" where
  "staging_copies buffers base =
     map (\<lambda>j. Memcpy (base + int j * element_count (buffers ! 2) * 8)
                 (source_buffer (buffers ! (j + 2)))
                 (size_bytes (source_buffer (buffers ! (j + 2)))))
       [0, 1, 2, 3]"

fun returns_error :: "'a result \<Rightarrow> bool" where
  "returns_error (Err e) = True"
| "returns_error _ = False"

text \<open>The first element of a slice, the offset read as a signed 64-bit integer.\<close>

definition slice_start :: "DeviceSlice \<Rightarrow> int" where
  "slice_start s = (case s of Slice b t off cnt \<Rightarrow> sint off)"

text \<open>
  The calls before the wait all succeed: the registration, the rank query and the four
  staging copies of a run with six bindings.
\<close>

definition staging_succeeds :: "collaborators \<Rightarrow> bool" where
  "staging_succeeds c =
     (MaybeRegisterBuffers_status c = None \<and>
      (case NumRanks_result c of Inl e \<Rightarrow> False | Inr num_ranks \<Rightarrow> True) \<and>
      Memcpy_status c 2 = None \<and> Memcpy_status c 3 = None \<and> Memcpy_status c 4 = None \<and>
      Memcpy_status c 5 = None)"

section \<open>Concrete inputs\<close>

text \<open>A memory whose byte 3 is \<open>0x80\<close>: the 32-bit word at 0 has its top bit set.\<close>

definition high_bit_memory :: memory where
  "high_bit_memory = (\<lambda>a. if a = 3 then 128 else 0)"

text \<open>
  The scenario of the spec: two peers, rows of four elements, the four index arrays
  \<open>[0, 2]\<close>, \<open>[2, 1]\<close>, \<open>[1, 0]\<close> and \<open>[1, 2]\<close> as \<open>S32\<close> arrays in device memory at 1000,
  2000, 3000 and 4000, and the staging region at 5000. Every collaborator call succeeds.
\<close>

definition scenario_device :: memory where
  "scenario_device =
     (\<lambda>a. if a = 1004 then 2 else if a = 2000 then 2 else if a = 2004 then 1
          else if a = 3000 then 1 else if a = 4000 then 1 else if a = 4004 then 2 else 0)"

definition ok_collaborators :: collaborators where
  "ok_collaborators =
     \<lparr>MaybeRegisterBuffers_status = None, NumRanks_result = Inr 2,
      Memcpy_status = (\<lambda>i. None), BlockHostUntilDone_status = None, GroupStart_status = None,
      Send_status = (\<lambda>peer. None), Recv_status = (\<lambda>peer. None), GroupEnd_status = None,
      device_memory = scenario_device, stream_ptr = ''0x1''\<rparr>"

definition empty_world :: world where
  "empty_world = \<lparr>trace = [], host = (\<lambda>a. 0)\<rparr>"

definition payload :: DeviceBufferPair where
  "payload =
     \<lparr>element_type = F32, element_count = 12, source_buffer = DeviceMemoryBase 100 48,
      destination_buffer = DeviceMemoryBase 200 48\<rparr>"

definition output_binding :: DeviceBufferPair where
  "output_binding =
     \<lparr>element_type = F32, element_count = 12, source_buffer = DeviceMemoryBase 200 48,
      destination_buffer = DeviceMemoryBase 200 48\<rparr>"

definition index_binding :: "int \<Rightarrow> DeviceBufferPair" where
  "index_binding a =
     \<lparr>element_type = S32, element_count = 2, source_buffer = DeviceMemoryBase a 8,
      destination_buffer = DeviceMemoryBase a 8\<rparr>"

definition scenario_buffers :: "DeviceBufferPair list" where
  "scenario_buffers =
     [payload, output_binding, index_binding 1000, index_binding 2000, index_binding 3000,
      index_binding 4000]"

text \<open>Five bindings: the payload, then the four index arrays at positions 1 to 4.\<close>

definition five_buffers :: "DeviceBufferPair list" where
  "five_buffers =
     [payload, index_binding 1000, index_binding 2000, index_binding 3000, index_binding 4000]"

text \<open>The scenario with a wait that fails, and with a \<open>Send\<close> that fails.\<close>

definition wait_fails :: collaborators where
  "wait_fails =
     ok_collaborators\<lparr>BlockHostUntilDone_status := Some (Error kUnavailable ''device lost'')\<rparr>"

definition send_fails :: collaborators where
  "send_fails =
     ok_collaborators\<lparr>Send_status := (\<lambda>peer. Some (Error kUnavailable ''peer down''))\<rparr>"

text \<open>Configurations, cache states and the parameters of \<open>Initialize\<close> and of a run.\<close>

definition two_rows :: NcclRaggedAllToAllConfig where
  "two_rows = \<lparr>num_ragged_rows = 2, ragged_row_element_size = 4\<rparr>"

definition three_rows :: NcclRaggedAllToAllConfig where
  "three_rows = \<lparr>num_ragged_rows = 3, ragged_row_element_size = 4\<rparr>"

definition empty_thunk :: thunk_state where
  "empty_thunk = \<lparr>host_buffer_allocs = Map.empty, allocations = []\<rparr>"

definition init_params :: "nat \<Rightarrow> int \<Rightarrow> InitializeParams" where
  "init_params d a =
     \<lparr>executor = d, NcclCollectiveThunk_Initialize_status = None,
      HostMemoryAllocate_result = (\<lambda>n. Inr \<lparr>allocation_opaque = a, allocation_size = n\<rparr>)\<rparr>"

definition failing_init_params :: InitializeParams where
  "failing_init_params =
     \<lparr>executor = 0, NcclCollectiveThunk_Initialize_status = None,
      HostMemoryAllocate_result = (\<lambda>n. Inl (Error kResourceExhausted ''out of host memory''))\<rparr>"

definition run_params :: ExecuteParams where
  "run_params =
     \<lparr>ConvertToDeviceBuffers_result = Inr scenario_buffers, GetGpuCollectives_status = None,
      stream_parent = 0\<rparr>"

text \<open>Operand shapes: arrays are acceptable, tuples are not.\<close>

definition dense_shape :: "Shape \<Rightarrow> bool" where
  "dense_shape sh = (shape_element_type sh \<noteq> TUPLE)"

definition shape_name :: "Shape \<Rightarrow> string" where
  "shape_name sh = (if shape_element_type sh = TUPLE then ''tuple'' else ''array'')"

definition describe_op :: "HloRaggedAllToAllInstruction \<Rightarrow> int \<Rightarrow> int \<Rightarrow> string" where
  "describe_op instr replica_count partition_count = '' in ragged-all-to-all''"

definition good_instr :: HloRaggedAllToAllInstruction where
  "good_instr = \<lparr>operands = [\<lparr>shape_element_type = F32, dimensions = [3, 4]\<rparr>,
      \<lparr>shape_element_type = S32, dimensions = [2]\<rparr>]\<rparr>"

definition bad_instr :: HloRaggedAllToAllInstruction where
  "bad_instr = \<lparr>operands = [\<lparr>shape_element_type = F32, dimensions = [3, 4]\<rparr>,
      \<lparr>shape_element_type = TUPLE, dimensions = []\<rparr>,
      \<lparr>shape_element_type = TUPLE, dimensions = [1]\<rparr>]\<rparr>"

text \<open>
  A memory holding \<open>-16909060\<close> (\<open>-0x01020304\<close>) as the 32-bit element 1 of an array at 0
  and as the 64-bit element 1 of an array at 16.
\<close>

definition negative_memory :: memory where
  "negative_memory =
     (\<lambda>a. if a = 4 \<or> a = 5 \<or> a = 24 \<or> a = 25 then 0xFC
          else if a = 6 \<or> a = 26 then 0xFD
          else if a = 7 \<or> a = 27 then 0xFE
          else if 28 \<le> a \<and> a \<le> 31 then 0xFF else 0)"

text \<open>The scenario with a fourth staging copy that the stream refuses.\<close>

definition copy_fails :: collaborators where
  "copy_fails =
     ok_collaborators\<lparr>Memcpy_status :=
       (\<lambda>i. if i = 5 then Some (Error kUnavailable ''copy refused'') else None)\<rparr>"

text \<open>
  Index arrays of all four types: \<open>input_offsets = [0, 258]\<close> as \<open>S64\<close>,
  \<open>send_sizes = [258, 1]\<close> as \<open>U64\<close>, \<open>output_offsets = [1, -1]\<close> as \<open>S32\<close> and
  \<open>recv_sizes = [1, 2]\<close> as \<open>U32\<close>.
\<close>

definition wide_device :: memory where
  "wide_device =
     (\<lambda>a. if a = 1008 then 2 else if a = 1009 then 1
          else if a = 2000 then 2 else if a = 2001 then 1 else if a = 2008 then 1
          else if a = 3000 then 1 else if 3004 \<le> a \<and> a \<le> 3007 then 0xFF
          else if a = 4000 then 1 else if a = 4004 then 2 else 0)"

definition typed_binding :: "PrimitiveType \<Rightarrow> int \<Rightarrow> nat \<Rightarrow> DeviceBufferPair" where
  "typed_binding t a n =
     \<lparr>element_type = t, element_count = 2, source_buffer = DeviceMemoryBase a n,
      destination_buffer = DeviceMemoryBase a n\<rparr>"

definition wide_buffers :: "DeviceBufferPair list" where
  "wide_buffers =
     [payload, output_binding, typed_binding S64 1000 16, typed_binding U64 2000 16,
      typed_binding S32 3000 8, typed_binding U32 4000 8]"

definition wide_collaborators :: collaborators where
  "wide_collaborators = ok_collaborators\<lparr>device_memory := wide_device\<rparr>"

text \<open>The scenario with \<open>input_offsets\<close> a \<open>U32\<close> array whose element 0 is \<open>2^31\<close>.\<close>

definition high_offset_device :: memory where
  "high_offset_device = (\<lambda>a. if a = 1003 then 0x80 else scenario_device a)"

definition high_offset_buffers :: "DeviceBufferPair list" where
  "high_offset_buffers =
     [payload, output_binding, typed_binding U32 1000 8, index_binding 2000,
      index_binding 3000, index_binding 4000]"

definition high_offset_collaborators :: collaborators where
  "high_offset_collaborators = ok_collaborators\<lparr>device_memory := high_offset_device\<rparr>"

section \<open>Properties of the index accessor\<close>

lemma narrow_value_scast:
  assumes "tn = S32 \<or> tn = U32" and "logical_value m tn p i = Some v" and "v < 2 ^ 31"
  shows "(scast (load_int32 m (p + 4 * i)) :: 64 word) = word_of_int v \<and> - (2 ^ 31) \<le> v"
proof -
  let ?a = "load_int32 m (p + 4 * i)"
  have "sint ?a = v \<and> - (2 ^ 31) \<le> v"
  proof (cases "tn = S32")
    case True
    with assms have "sint ?a = v" by (simp add: logical_value_def)
    moreover have "- (2 ^ 31) \<le> sint ?a" using sint_ge [of ?a] by simp
    ultimately show ?thesis by simp
  next
    case False
    with assms have u: "uint ?a = v" by (simp add: logical_value_def)
    with assms have "uint ?a < 2 ^ 31" by simp
    then have "sint ?a = uint ?a"
      by (simp add: sint_uint signed_take_bit_eq_if_positive bit_uint_iff
          take_bit_int_eq_self bit_iff_odd word_less_alt uint_div_distrib)
    moreover have "0 \<le> uint ?a" by simp
    ultimately show ?thesis using u by simp
  qed
  then show ?thesis by (simp add: scast_eq)
qed

lemma wide_value_word:
  assumes "tw = S64 \<or> tw = U64" and "logical_value m tw p i = Some v"
  shows "load_int64 m (p + 8 * i) = word_of_int v"
  using assms by (auto simp: logical_value_def)

text \<open>
  C3, as the code has it: on an element type other than \<open>S32\<close>, \<open>U32\<close>, \<open>S64\<close> and \<open>U64\<close>,
  \<open>IntegerOperandData::get\<close> ends the process with \<open>LOG(FATAL)\<close>, at every index and on
  every memory; no error value reaches the caller.
\<close>

theorem get_unsupported_aborts:
  "\<not> supported_index_type (iod_element_type d) \<Longrightarrow>
     get m d i = Aborts ''Unsupported element type'' \<and> \<not> returns_internal_error (get m d i)"
  by (cases "iod_element_type d") (simp_all add: get_def supported_index_type_def)

theorem get_unsupported_aborts_witness:
  "\<not> supported_index_type F32 \<and>
   get high_bit_memory \<lparr>iod_element_type = F32, iod_data = 0\<rparr> 1 =
     Aborts ''Unsupported element type''"
  using get_unsupported_aborts [of "\<lparr>iod_element_type = F32, iod_data = 0\<rparr>" high_bit_memory 1]
  by (simp add: supported_index_type_def)

text \<open>
  C3 as stated fails: on an \<open>F32\<close> array the accessor returns no internal error, it aborts.
\<close>

theorem get_unsupported_counterexample:
  "\<not> supported_index_type F32 \<and>
   \<not> returns_internal_error (get high_bit_memory \<lparr>iod_element_type = F32, iod_data = 0\<rparr> 0) \<and>
   aborts_process (get high_bit_memory \<lparr>iod_element_type = F32, iod_data = 0\<rparr> 0)"
  by (simp add: get_def supported_index_type_def)

text \<open>
  C6, amended: when a narrow array (\<open>S32\<close> or \<open>U32\<close>) and a wide array (\<open>S64\<close> or \<open>U64\<close>)
  hold the same logical value \<open>v\<close> at position \<open>i\<close> and \<open>v\<close> is below \<open>2^31\<close>, both reads
  return \<open>v\<close> as a 64-bit signed integer; and the signed and the unsigned type of one
  width are read alike, at every position of every memory.
\<close>

theorem get_narrow_wide_agree:
  assumes "tn = S32 \<or> tn = U32" and "tw = S64 \<or> tw = U64"
    and "logical_value m1 tn p1 i = Some v" and "logical_value m2 tw p2 i = Some v"
    and "v < 2 ^ 31"
  shows "get m1 \<lparr>iod_element_type = tn, iod_data = p1\<rparr> i = Ok (word_of_int v) \<and>
         get m2 \<lparr>iod_element_type = tw, iod_data = p2\<rparr> i = Ok (word_of_int v) \<and>
         sint (word_of_int v :: 64 word) = v \<and>
         get m \<lparr>iod_element_type = S32, iod_data = p\<rparr> j =
           get m \<lparr>iod_element_type = U32, iod_data = p\<rparr> j \<and>
         get m \<lparr>iod_element_type = S64, iod_data = p\<rparr> j =
           get m \<lparr>iod_element_type = U64, iod_data = p\<rparr> j"
proof -
  from narrow_value_scast [OF assms(1) assms(3) assms(5)]
  have n: "(scast (load_int32 m1 (p1 + 4 * i)) :: 64 word) = word_of_int v"
    and lo: "- (2 ^ 31) \<le> v"
    by simp_all
  from wide_value_word [OF assms(2) assms(4)]
  have w: "load_int64 m2 (p2 + 8 * i) = word_of_int v" .
  have "get m1 \<lparr>iod_element_type = tn, iod_data = p1\<rparr> i = Ok (word_of_int v)"
    using assms(1) n by (auto simp: get_def)
  moreover have "get m2 \<lparr>iod_element_type = tw, iod_data = p2\<rparr> i = Ok (word_of_int v)"
    using assms(2) w by (auto simp: get_def)
  moreover have "sint (word_of_int v :: 64 word) = v"
    using lo assms(5) by (simp add: sint_sbintrunc' signed_take_bit_int_eq_self)
  ultimately show ?thesis by (simp add: get_def)
qed

theorem get_narrow_wide_agree_witness:
  "logical_value negative_memory S32 0 1 = Some (- 16909060) \<and>
   logical_value negative_memory S64 16 1 = Some (- 16909060) \<and>
   get negative_memory \<lparr>iod_element_type = S32, iod_data = 0\<rparr> 1 = Ok 0xFFFFFFFFFEFDFCFC \<and>
   get negative_memory \<lparr>iod_element_type = S64, iod_data = 16\<rparr> 1 = Ok 0xFFFFFFFFFEFDFCFC \<and>
   sint (0xFFFFFFFFFEFDFCFC :: 64 word) = - 16909060 \<and>
   get negative_memory \<lparr>iod_element_type = U32, iod_data = 0\<rparr> 1 = Ok 0xFFFFFFFFFEFDFCFC \<and>
   get negative_memory \<lparr>iod_element_type = U64, iod_data = 16\<rparr> 1 = Ok 0xFFFFFFFFFEFDFCFC"
proof -
  have a: "logical_value negative_memory S32 0 1 = Some (- 16909060)"
    by (simp add: logical_value_def load_int32_def negative_memory_def)
  have b: "logical_value negative_memory S64 16 1 = Some (- 16909060)"
    by (simp add: logical_value_def load_int32_def load_int64_def negative_memory_def)
  have w: "(word_of_int (- 16909060) :: 64 word) = 0xFFFFFFFFFEFDFCFC" by simp
  have p1: "S32 = S32 \<or> S32 = U32" and p2: "S64 = S64 \<or> S64 = U64"
    and p5: "(- 16909060 :: int) < 2 ^ 31"
    by simp_all
  note t1 = get_narrow_wide_agree [where tn = S32 and tw = S64 and ?m1.0 = negative_memory
      and ?m2.0 = negative_memory and ?p1.0 = 0 and ?p2.0 = 16 and i = 1
      and v = "- 16909060" and m = negative_memory and p = 0 and j = 1, OF p1 p2 a b p5]
  note t2 = get_narrow_wide_agree [where tn = S32 and tw = S64 and ?m1.0 = negative_memory
      and ?m2.0 = negative_memory and ?p1.0 = 0 and ?p2.0 = 16 and i = 1
      and v = "- 16909060" and m = negative_memory and p = 16 and j = 1, OF p1 p2 a b p5]
  have n: "get negative_memory \<lparr>iod_element_type = S32, iod_data = 0\<rparr> 1 =
      Ok (word_of_int (- 16909060))"
    using t1 by blast
  have wd: "get negative_memory \<lparr>iod_element_type = S64, iod_data = 16\<rparr> 1 =
      Ok (word_of_int (- 16909060))"
    using t1 by blast
  have sg: "sint (word_of_int (- 16909060) :: 64 word) = - 16909060"
    using t1 by blast
  have u32: "get negative_memory \<lparr>iod_element_type = U32, iod_data = 0\<rparr> 1 =
      get negative_memory \<lparr>iod_element_type = S32, iod_data = 0\<rparr> 1"
    using t1 [THEN conjunct2, THEN conjunct2, THEN conjunct2, THEN conjunct1] by (rule sym)
  have u64: "get negative_memory \<lparr>iod_element_type = U64, iod_data = 16\<rparr> 1 =
      get negative_memory \<lparr>iod_element_type = S64, iod_data = 16\<rparr> 1"
    using t2 [THEN conjunct2, THEN conjunct2, THEN conjunct2, THEN conjunct2] by (rule sym)
  show ?thesis
    unfolding u32 u64 n wd using a b sg by (simp only: w)
qed

text \<open>
  C6 as stated fails on an unsigned narrow array: \<open>2^31\<close> is a value of \<open>U32\<close> and of
  \<open>U64\<close>, held at position 0 of the same memory under both types, and the narrow read
  returns \<open>-2^31\<close> where the wide read returns \<open>2^31\<close>.
\<close>

theorem get_narrow_wide_counterexample:
  "logical_value high_bit_memory U32 0 0 = Some 2147483648 \<and>
   logical_value high_bit_memory U64 0 0 = Some 2147483648 \<and>
   get high_bit_memory \<lparr>iod_element_type = U32, iod_data = 0\<rparr> 0 = Ok 0xFFFFFFFF80000000 \<and>
   get high_bit_memory \<lparr>iod_element_type = U64, iod_data = 0\<rparr> 0 = Ok 0x80000000 \<and>
   get high_bit_memory \<lparr>iod_element_type = U32, iod_data = 0\<rparr> 0
     \<noteq> get high_bit_memory \<lparr>iod_element_type = U64, iod_data = 0\<rparr> 0"
  by (simp add: logical_value_def get_def load_int32_def load_int64_def high_bit_memory_def)

section \<open>The staging cache across calls\<close>

lemma Initialize_present:
  "host_buffer_allocs s (executor p) = Some a \<Longrightarrow>
     Initialize config p s = (NcclCollectiveThunk_Initialize_status p, s)"
  by (simp add: Initialize_def split: option.splits)

lemma Initialize_fresh_ok:
  assumes "host_buffer_allocs s (executor p) = None" and "Initialize config p s = (None, s')"
  shows "\<exists>a. HostMemoryAllocate_result p (4 * num_ragged_rows config * 8) = Inr a \<and>
     s' = s\<lparr>allocations := allocations s @ [(executor p, 4 * num_ragged_rows config * 8)],
            host_buffer_allocs := (host_buffer_allocs s)(executor p \<mapsto> a)\<rparr>"
  using assms by (auto simp: Initialize_def split: option.splits sum.splits)

lemma allocation_size_no_wrap:
  assumes "unat (r :: 64 word) < 2 ^ 59"
  shows "unat (4 * r * 8) = 4 * unat r * 8"
proof -
  have "unat (4 * r * 8) = (4 * unat r * 8) mod 2 ^ 64"
    by (simp add: unat_word_ariths)
  also have "\<dots> = 4 * unat r * 8" using assms by simp
  finally show ?thesis .
qed

text \<open>
  C7: after a first successful \<open>Initialize\<close> for an executor without an entry, exactly one
  allocation has been made, of \<open>4 * num_ragged_rows * 8\<close> bytes in 64-bit arithmetic (that
  many bytes when \<open>num_ragged_rows\<close> is below \<open>2^59\<close>), and the cache holds the allocation
  under that executor; any further call for the same executor leaves cache and allocations
  as they are; a successful call for another executor adds one allocation of the same
  size and a second entry, the first entry untouched.
\<close>

theorem Initialize_idempotent:
  assumes fresh1: "host_buffer_allocs s (executor p1) = None"
    and first: "Initialize config p1 s = (None, s1)"
    and same: "executor p2 = executor p1"
    and other: "executor p3 \<noteq> executor p1"
    and fresh3: "host_buffer_allocs s (executor p3) = None"
    and third: "Initialize config p3 s1 = (None, s3)"
  shows "allocations s1 = allocations s @ [(executor p1, 4 * num_ragged_rows config * 8)] \<and>
         host_buffer_allocs s1 (executor p1) \<noteq> None \<and>
         Inr (the (host_buffer_allocs s1 (executor p1))) =
           HostMemoryAllocate_result p1 (4 * num_ragged_rows config * 8) \<and>
         dom (host_buffer_allocs s1) = insert (executor p1) (dom (host_buffer_allocs s)) \<and>
         Initialize config p2 s1 = (NcclCollectiveThunk_Initialize_status p2, s1) \<and>
         allocations s3 =
           allocations s @ [(executor p1, 4 * num_ragged_rows config * 8),
                            (executor p3, 4 * num_ragged_rows config * 8)] \<and>
         host_buffer_allocs s3 (executor p1) = host_buffer_allocs s1 (executor p1) \<and>
         Inr (the (host_buffer_allocs s3 (executor p3))) =
           HostMemoryAllocate_result p3 (4 * num_ragged_rows config * 8) \<and>
         dom (host_buffer_allocs s3) =
           insert (executor p3) (insert (executor p1) (dom (host_buffer_allocs s))) \<and>
         (unat (num_ragged_rows config) < 2 ^ 59 \<longrightarrow>
            unat (4 * num_ragged_rows config * 8) = 4 * unat (num_ragged_rows config) * 8)"
proof -
  from Initialize_fresh_ok [OF fresh1 first] obtain a1 where
    a1: "HostMemoryAllocate_result p1 (4 * num_ragged_rows config * 8) = Inr a1" and
    s1: "s1 = s\<lparr>allocations := allocations s @ [(executor p1, 4 * num_ragged_rows config * 8)],
            host_buffer_allocs := (host_buffer_allocs s)(executor p1 \<mapsto> a1)\<rparr>"
    by blast
  have present: "host_buffer_allocs s1 (executor p2) = Some a1" using s1 same by simp
  have fresh3': "host_buffer_allocs s1 (executor p3) = None" using s1 other fresh3 by simp
  from Initialize_fresh_ok [OF fresh3' third] obtain a3 where
    a3: "HostMemoryAllocate_result p3 (4 * num_ragged_rows config * 8) = Inr a3" and
    s3: "s3 = s1\<lparr>allocations := allocations s1 @ [(executor p3, 4 * num_ragged_rows config * 8)],
            host_buffer_allocs := (host_buffer_allocs s1)(executor p3 \<mapsto> a3)\<rparr>"
    by blast
  have size: "unat (num_ragged_rows config) < 2 ^ 59 \<longrightarrow>
      unat (4 * num_ragged_rows config * 8) = 4 * unat (num_ragged_rows config) * 8"
    using allocation_size_no_wrap by blast
  show ?thesis
    using a1 a3 other Initialize_present [OF present, of config] size
    by (simp add: s3 s1 insert_commute)
qed

theorem Initialize_idempotent_witness:
  "Initialize three_rows (init_params 0 5000) empty_thunk =
     (None, \<lparr>host_buffer_allocs = [0 \<mapsto> \<lparr>allocation_opaque = 5000, allocation_size = 96\<rparr>],
             allocations = [(0, 96)]\<rparr>) \<and>
   Initialize three_rows (init_params 0 7000)
       \<lparr>host_buffer_allocs = [0 \<mapsto> \<lparr>allocation_opaque = 5000, allocation_size = 96\<rparr>],
        allocations = [(0, 96)]\<rparr> =
     (None, \<lparr>host_buffer_allocs = [0 \<mapsto> \<lparr>allocation_opaque = 5000, allocation_size = 96\<rparr>],
             allocations = [(0, 96)]\<rparr>) \<and>
   allocations (snd (Initialize three_rows (init_params 1 9000)
       \<lparr>host_buffer_allocs = [0 \<mapsto> \<lparr>allocation_opaque = 5000, allocation_size = 96\<rparr>],
        allocations = [(0, 96)]\<rparr>)) = [(0, 96), (1, 96)]"
proof -
  let ?s1 = "\<lparr>host_buffer_allocs = [0 \<mapsto> \<lparr>allocation_opaque = 5000, allocation_size = 96\<rparr>],
             allocations = [(0, 96 :: 64 word)]\<rparr>"
  let ?s3 = "snd (Initialize three_rows (init_params 1 9000) ?s1)"
  have f1: "host_buffer_allocs empty_thunk (executor (init_params 0 5000)) = None"
    by (simp add: empty_thunk_def)
  have i1: "Initialize three_rows (init_params 0 5000) empty_thunk = (None, ?s1)"
    by (simp add: Initialize_def three_rows_def init_params_def empty_thunk_def)
  have sm: "executor (init_params 0 7000) = executor (init_params 0 5000)"
    by (simp add: init_params_def)
  have ot: "executor (init_params 1 9000) \<noteq> executor (init_params 0 5000)"
    by (simp add: init_params_def)
  have f3: "host_buffer_allocs empty_thunk (executor (init_params 1 9000)) = None"
    by (simp add: empty_thunk_def)
  have i3: "Initialize three_rows (init_params 1 9000) ?s1 = (None, ?s3)"
    by (simp add: Initialize_def three_rows_def init_params_def)
  from Initialize_idempotent [OF f1 i1 sm ot f3 i3] i1
  show ?thesis
    by (simp add: three_rows_def init_params_def empty_thunk_def)
qed

lemma Initialize_error_keeps_map:
  "Initialize config p s = (Some e, s') \<Longrightarrow> host_buffer_allocs s' = host_buffer_allocs s"
  by (auto simp: Initialize_def split: option.splits sum.splits)

text \<open>
  C5, as the code has it: when the buffers convert and the collectives are found, a run on
  an executor without a cache entry ends the process at the \<open>at\<close> lookup and returns no
  status, in particular no internal error; the same holds after an \<open>Initialize\<close> for that
  state that returned an error.
\<close>

theorem RunNcclCollective_uninitialized:
  assumes "ConvertToDeviceBuffers_result params = Inr device_buffers"
    and "GetGpuCollectives_status params = None"
    and "host_buffer_allocs s (stream_parent params) = None"
  shows "RunNcclCollective config s params c w = (Aborts ''out_of_range'', w) \<and>
         \<not> returns_internal_error (fst (RunNcclCollective config s params c w)) \<and>
         (Initialize config p s = (Some e, s') \<longrightarrow>
            RunNcclCollective config s' params c w = (Aborts ''out_of_range'', w))"
  using assms Initialize_error_keeps_map [of config p s e s']
  by (auto simp: RunNcclCollective_def)

theorem RunNcclCollective_uninitialized_witness:
  "Initialize three_rows failing_init_params empty_thunk =
     (Some (Error kResourceExhausted ''out of host memory''),
      \<lparr>host_buffer_allocs = Map.empty, allocations = [(0, 96)]\<rparr>) \<and>
   RunNcclCollective three_rows empty_thunk run_params ok_collaborators empty_world =
     (Aborts ''out_of_range'', empty_world) \<and>
   RunNcclCollective three_rows \<lparr>host_buffer_allocs = Map.empty, allocations = [(0, 96)]\<rparr>
       run_params ok_collaborators empty_world =
     (Aborts ''out_of_range'', empty_world)"
proof -
  have a: "ConvertToDeviceBuffers_result run_params = Inr scenario_buffers"
    and b: "GetGpuCollectives_status run_params = None"
    and c: "host_buffer_allocs empty_thunk (stream_parent run_params) = None"
    by (simp_all add: run_params_def empty_thunk_def)
  have i: "Initialize three_rows failing_init_params empty_thunk =
     (Some (Error kResourceExhausted ''out of host memory''),
      \<lparr>host_buffer_allocs = Map.empty, allocations = [(0, 96)]\<rparr>)"
    by (simp add: Initialize_def three_rows_def failing_init_params_def empty_thunk_def)
  from RunNcclCollective_uninitialized [OF a b c, of three_rows ok_collaborators empty_world
      failing_init_params "Error kResourceExhausted ''out of host memory''"
      "\<lparr>host_buffer_allocs = Map.empty, allocations = [(0, 96)]\<rparr>"] i
  show ?thesis by simp
qed

text \<open>
  C5 as stated fails: on a thunk whose cache is empty the run returns no internal error;
  it aborts.
\<close>

theorem RunNcclCollective_uninitialized_counterexample:
  "host_buffer_allocs empty_thunk (stream_parent run_params) = None \<and>
   \<not> returns_internal_error
       (fst (RunNcclCollective three_rows empty_thunk run_params ok_collaborators empty_world)) \<and>
   aborts_process
     (fst (RunNcclCollective three_rows empty_thunk run_params ok_collaborators empty_world))"
  by (simp add: RunNcclCollective_def run_params_def empty_thunk_def)

section \<open>Validation is fail-fast\<close>

lemma check_operands_all_ok:
  "\<forall>sh \<in> set ops. valid sh = None \<Longrightarrow> check_operands valid ops checked = (None, checked @ ops)"
  by (induction ops arbitrary: checked) simp_all

lemma check_operands_first_bad:
  "\<forall>sh \<in> set pre. valid sh = None \<Longrightarrow> valid bad = Some e \<Longrightarrow>
     check_operands valid (pre @ bad # post) checked = (Some e, checked @ pre @ [bad])"
  by (induction pre arbitrary: checked) simp_all

text \<open>
  C9: when every operand shape is acceptable, \<open>CheckImplementable\<close> returns OK after checking
  all of them in order; when the operands are \<open>pre @ bad # post\<close> with \<open>bad\<close> the first shape
  that is not acceptable, it returns an \<open>InvalidArgument\<close> error whose message names \<open>bad\<close>,
  and the shapes checked are \<open>pre @ [bad]\<close>: none of \<open>post\<close>. The function takes the
  instruction and the counts only.
\<close>

theorem CheckImplementable_fail_fast:
  "((\<forall>sh \<in> set (operands instr). acceptable sh) \<longrightarrow>
      CheckImplementable (IsValidOperand acceptable ToString) describe instr replica_count
          partition_count =
        (None, operands instr)) \<and>
   (operands instr = pre @ bad # post \<and> (\<forall>sh \<in> set pre. acceptable sh) \<and> \<not> acceptable bad \<longrightarrow>
      CheckImplementable (IsValidOperand acceptable ToString) describe instr replica_count
          partition_count =
        (Some (Error kInvalidArgument
           (''invalid operand: '' @ ToString bad @ describe instr replica_count partition_count)),
         pre @ [bad]))"
proof (intro conjI impI)
  assume "\<forall>sh \<in> set (operands instr). acceptable sh"
  then have "\<forall>sh \<in> set (operands instr). IsValidOperand acceptable ToString sh = None"
    by (simp add: IsValidOperand_def)
  then have "check_operands (IsValidOperand acceptable ToString) (operands instr) [] =
      (None, operands instr)"
    by (simp add: check_operands_all_ok)
  then show "CheckImplementable (IsValidOperand acceptable ToString) describe instr replica_count
          partition_count = (None, operands instr)"
    by (simp add: CheckImplementable_def AddOpDescription_def)
next
  assume a: "operands instr = pre @ bad # post \<and> (\<forall>sh \<in> set pre. acceptable sh) \<and> \<not> acceptable bad"
  then have ok: "\<forall>sh \<in> set pre. IsValidOperand acceptable ToString sh = None"
    and bad: "IsValidOperand acceptable ToString bad =
      Some (Error kInvalidArgument (''invalid operand: '' @ ToString bad))"
    by (simp_all add: IsValidOperand_def)
  have "check_operands (IsValidOperand acceptable ToString) (operands instr) [] =
      (Some (Error kInvalidArgument (''invalid operand: '' @ ToString bad)), pre @ [bad])"
    using check_operands_first_bad [OF ok bad, of post "[]"] a by simp
  then show "CheckImplementable (IsValidOperand acceptable ToString) describe instr replica_count
          partition_count =
        (Some (Error kInvalidArgument
           (''invalid operand: '' @ ToString bad @ describe instr replica_count partition_count)),
         pre @ [bad])"
    by (simp add: CheckImplementable_def AddOpDescription_def)
qed

theorem CheckImplementable_fail_fast_witness:
  "CheckImplementable (IsValidOperand dense_shape shape_name) describe_op good_instr 1 2 =
     (None, operands good_instr) \<and>
   CheckImplementable (IsValidOperand dense_shape shape_name) describe_op bad_instr 1 2 =
     (Some (Error kInvalidArgument ''invalid operand: tuple in ragged-all-to-all''),
      [\<lparr>shape_element_type = F32, dimensions = [3, 4]\<rparr>,
       \<lparr>shape_element_type = TUPLE, dimensions = []\<rparr>])"
proof -
  have g: "\<forall>sh \<in> set (operands good_instr). dense_shape sh"
    by (simp add: good_instr_def dense_shape_def)
  have b: "operands bad_instr =
      [\<lparr>shape_element_type = F32, dimensions = [3, 4]\<rparr>]
        @ \<lparr>shape_element_type = TUPLE, dimensions = []\<rparr>
        # [\<lparr>shape_element_type = TUPLE, dimensions = [1]\<rparr>] \<and>
      (\<forall>sh \<in> set [\<lparr>shape_element_type = F32, dimensions = [3, 4]\<rparr>]. dense_shape sh) \<and>
      \<not> dense_shape \<lparr>shape_element_type = TUPLE, dimensions = []\<rparr>"
    by (simp add: bad_instr_def dense_shape_def)
  from CheckImplementable_fail_fast [where instr = good_instr and acceptable = dense_shape
      and ToString = shape_name and describe = describe_op and replica_count = 1
      and partition_count = 2] g
  have one: "CheckImplementable (IsValidOperand dense_shape shape_name) describe_op good_instr 1 2 =
     (None, operands good_instr)" by blast
  from CheckImplementable_fail_fast [where instr = bad_instr and acceptable = dense_shape
      and ToString = shape_name and describe = describe_op and replica_count = 1
      and partition_count = 2 and pre = "[\<lparr>shape_element_type = F32, dimensions = [3, 4]\<rparr>]"
      and bad = "\<lparr>shape_element_type = TUPLE, dimensions = []\<rparr>"
      and post = "[\<lparr>shape_element_type = TUPLE, dimensions = [1]\<rparr>]"] b
  have two: "CheckImplementable (IsValidOperand dense_shape shape_name) describe_op bad_instr 1 2 =
     (Some (Error kInvalidArgument
        (''invalid operand: '' @ shape_name \<lparr>shape_element_type = TUPLE, dimensions = []\<rparr>
           @ describe_op bad_instr 1 2)),
      [\<lparr>shape_element_type = F32, dimensions = [3, 4]\<rparr>]
        @ [\<lparr>shape_element_type = TUPLE, dimensions = []\<rparr>])" by blast
  from one two show ?thesis by (simp add: shape_name_def describe_op_def)
qed

section \<open>The calls of a run, in order\<close>

lemma trace_issue [simp]: "trace (issue e w) = trace w @ [e]"
  and host_issue [simp]: "host (issue e w) = host w"
  by (simp_all add: issue_def)

lemma load_six_ok:
  assumes "Memcpy_status c 2 = None" "Memcpy_status c 3 = None" "Memcpy_status c 4 = None"
    "Memcpy_status c 5 = None"
  shows "load_loop c [b0, b1, b2, b3, b4, b5] n 2 base [] w =
    (Ok [\<lparr>iod_element_type = element_type b2, iod_data = base\<rparr>,
         \<lparr>iod_element_type = element_type b3, iod_data = base + 8 * n\<rparr>,
         \<lparr>iod_element_type = element_type b4, iod_data = base + 8 * n + 8 * n\<rparr>,
         \<lparr>iod_element_type = element_type b5, iod_data = base + 8 * n + 8 * n + 8 * n\<rparr>],
     w\<lparr>trace := trace w @
          [Memcpy base (source_buffer b2) (size_bytes (source_buffer b2)),
           Memcpy (base + 8 * n) (source_buffer b3) (size_bytes (source_buffer b3)),
           Memcpy (base + 8 * n + 8 * n) (source_buffer b4) (size_bytes (source_buffer b4)),
           Memcpy (base + 8 * n + 8 * n + 8 * n) (source_buffer b5) (size_bytes (source_buffer b5))],
        host := staged_host (device_memory c) n base (source_buffer b2) (source_buffer b3)
          (source_buffer b4) (source_buffer b5) (host w)\<rparr>)"
  using assms by (simp add: load_loop.simps issue_def staged_host_def)

lemma peer_loop_trace:
  "\<exists>evs. snd (peer_loop c r b a1 a2 a3 a4 p N w) = w\<lparr>trace := trace w @ evs\<rparr> \<and>
     (\<forall>e \<in> set evs. is_transfer e)"
proof (induction c r b a1 a2 a3 a4 p N w rule: peer_loop.induct)
  case (1 c r b a1 a2 a3 a4 p N w)
  show ?case
  proof (cases "p < N")
    case False
    then have "snd (peer_loop c r b a1 a2 a3 a4 p N w) = w\<lparr>trace := trace w @ []\<rparr>"
      by (simp add: peer_loop.simps)
    then show ?thesis by (intro exI [of _ "[]"]) simp
  next
    case True
    show ?thesis
    proof (cases "read_indices (host w) a1 a2 a3 a4 (int p)")
      case (Ok v)
      obtain io ss oo rs where v: "v = (io, ss, oo, rs)" by (cases v) auto
      show ?thesis
      proof (cases "Send_status c p")
        case (Some e)
        with True Ok v
        have "snd (peer_loop c r b a1 a2 a3 a4 p N w) = w\<lparr>trace := trace w @ [send_event r b io ss p]\<rparr>"
          by (simp add: peer_loop.simps issue_def)
        then show ?thesis
          by (intro exI [of _ "[send_event r b io ss p]"]) (simp add: send_event_def)
      next
        case None
        note send = None
        show ?thesis
        proof (cases "Recv_status c p")
          case (Some e)
          with True Ok v send
          have "snd (peer_loop c r b a1 a2 a3 a4 p N w) =
              w\<lparr>trace := trace w @ [send_event r b io ss p, recv_event r b oo rs p]\<rparr>"
            by (simp add: peer_loop.simps issue_def)
          then show ?thesis
            by (intro exI [of _ "[send_event r b io ss p, recv_event r b oo rs p]"])
              (simp add: send_event_def recv_event_def)
        next
          case None
          let ?w = "issue (recv_event r b oo rs p) (issue (send_event r b io ss p) w)"
          from "1.IH" [OF True Ok v [symmetric] refl refl send None]
          obtain evs where
            evs: "snd (peer_loop c r b a1 a2 a3 a4 (p + 1) N ?w) = ?w\<lparr>trace := trace ?w @ evs\<rparr>"
              "\<forall>e \<in> set evs. is_transfer e"
            by blast
          from True Ok v send None
          have "peer_loop c r b a1 a2 a3 a4 p N w = peer_loop c r b a1 a2 a3 a4 (p + 1) N ?w"
            by (subst peer_loop.simps) simp
          with evs have "snd (peer_loop c r b a1 a2 a3 a4 p N w) =
              w\<lparr>trace := trace w @ ([send_event r b io ss p, recv_event r b oo rs p] @ evs)\<rparr>"
            by (simp add: issue_def)
          moreover have "\<forall>e \<in> set ([send_event r b io ss p, recv_event r b oo rs p] @ evs). is_transfer e"
            using evs(2) by (simp add: send_event_def recv_event_def)
          ultimately show ?thesis by blast
        qed
      qed
    next
      case (Err e)
      with True have "snd (peer_loop c r b a1 a2 a3 a4 p N w) = w\<lparr>trace := trace w @ []\<rparr>"
        by (simp add: peer_loop.simps)
      then show ?thesis by (intro exI [of _ "[]"]) simp
    next
      case (Aborts m)
      with True have "snd (peer_loop c r b a1 a2 a3 a4 p N w) = w\<lparr>trace := trace w @ []\<rparr>"
        by (simp add: peer_loop.simps)
      then show ?thesis by (intro exI [of _ "[]"]) simp
    next
      case Undefined
      with True have "snd (peer_loop c r b a1 a2 a3 a4 p N w) = w\<lparr>trace := trace w @ []\<rparr>"
        by (simp add: peer_loop.simps)
      then show ?thesis by (intro exI [of _ "[]"]) simp
    qed
  qed
qed


lemma Run_six_staged:
  assumes "MaybeRegisterBuffers_status c = None" "NumRanks_result c = Inr nr"
    "Memcpy_status c 2 = None" "Memcpy_status c 3 = None" "Memcpy_status c 4 = None"
    "Memcpy_status c 5 = None" "BlockHostUntilDone_status c = None" "GroupStart_status c = None"
  shows "RunRaggedAllToAll c rres [b0, b1, b2, b3, b4, b5] base w =
    end_group c
      (peer_loop c rres b0
        \<lparr>iod_element_type = element_type b2, iod_data = base\<rparr>
        \<lparr>iod_element_type = element_type b3, iod_data = base + 8 * element_count b2\<rparr>
        \<lparr>iod_element_type = element_type b4,
           iod_data = base + 8 * element_count b2 + 8 * element_count b2\<rparr>
        \<lparr>iod_element_type = element_type b5,
           iod_data = base + 8 * element_count b2 + 8 * element_count b2 + 8 * element_count b2\<rparr>
        0 (nat (sint nr))
        (w\<lparr>host := staged_host (device_memory c) (element_count b2) base (source_buffer b2)
            (source_buffer b3) (source_buffer b4) (source_buffer b5) (host w),
          trace := trace w @
           [MaybeRegisterBuffers, NumRanks,
            Memcpy base (source_buffer b2) (size_bytes (source_buffer b2)),
            Memcpy (base + 8 * element_count b2) (source_buffer b3)
              (size_bytes (source_buffer b3)),
            Memcpy (base + 8 * element_count b2 + 8 * element_count b2) (source_buffer b4)
              (size_bytes (source_buffer b4)),
            Memcpy (base + 8 * element_count b2 + 8 * element_count b2 + 8 * element_count b2)
              (source_buffer b5) (size_bytes (source_buffer b5)),
            BlockHostUntilDone, GroupStart]\<rparr>))"
  using assms
  by (simp add: RunRaggedAllToAll_def LoadOffsetAndSizeOperands_def load_six_ok end_group_def
      issue_def)

lemma six_list:
  "length xs = 6 \<Longrightarrow> \<exists>b0 b1 b2 b3 b4 b5. xs = [b0, b1, b2, b3, b4, b5]"
  by (auto simp: length_Suc_conv numeral_eq_Suc)

lemma transfer_not_staging: "is_transfer e \<Longrightarrow> \<not> is_copy e \<and> e \<noteq> BlockHostUntilDone"
  by (cases e) simp_all

lemma staging_copies_six:
  "staging_copies [b0, b1, b2, b3, b4, b5] base =
     [Memcpy base (source_buffer b2) (size_bytes (source_buffer b2)),
      Memcpy (base + 8 * element_count b2) (source_buffer b3) (size_bytes (source_buffer b3)),
      Memcpy (base + 8 * element_count b2 + 8 * element_count b2) (source_buffer b4)
        (size_bytes (source_buffer b4)),
      Memcpy (base + 8 * element_count b2 + 8 * element_count b2 + 8 * element_count b2)
        (source_buffer b5) (size_bytes (source_buffer b5))]"
  by (simp add: staging_copies_def)

lemmas scenario_defs = scenario_buffers_def five_buffers_def payload_def output_binding_def
  index_binding_def ok_collaborators_def wait_fails_def send_fails_def empty_world_def
  scenario_device_def

lemmas run_defs = RunRaggedAllToAll_def LoadOffsetAndSizeOperands_def load_loop.simps
  peer_loop.simps issue_def copy_to_host_def read_indices_def get_def load_int32_def
  load_int64_def send_event_def recv_event_def

text \<open>
  C2, as the code has it: in a run with six bindings, when the registration, the rank
  query and the four staging copies succeed, the first seven events are these six calls
  and then \<open>BlockHostUntilDone\<close>; no copy and no second wait follows; when the wait
  succeeds the next event is \<open>GroupStart\<close>, so that every \<open>Send\<close> and \<open>Recv\<close>, whose slices
  are computed from the staged values, comes after the wait; when the wait fails nothing
  follows it, and the run returns a new internal error whose message names the stream and
  carries the wait's message. When one of the six calls fails, the run returns an error
  with no wait, no \<open>GroupStart\<close> and no \<open>Send\<close> or \<open>Recv\<close>.
\<close>

theorem wait_after_staging:
  assumes len: "length buffers = 6"
    and evs: "evs = new_events w (snd (RunRaggedAllToAll c rres buffers base w))"
    and r: "r = fst (RunRaggedAllToAll c rres buffers base w)"
  shows "(staging_succeeds c \<longrightarrow>
            take 7 evs = [MaybeRegisterBuffers, NumRanks] @ staging_copies buffers base
              @ [BlockHostUntilDone] \<and>
            (\<forall>e \<in> set (drop 7 evs). \<not> is_copy e \<and> e \<noteq> BlockHostUntilDone) \<and>
            (BlockHostUntilDone_status c = None \<longrightarrow> take 1 (drop 7 evs) = [GroupStart]) \<and>
            (BlockHostUntilDone_status c \<noteq> None \<longrightarrow>
               drop 7 evs = [] \<and>
               r = Err (Error kInternal
                     (''Failed to complete all kernels launched on stream '' @ stream_ptr c
                        @ '': '' @ message (the (BlockHostUntilDone_status c)))))) \<and>
         (\<not> staging_succeeds c \<longrightarrow>
            BlockHostUntilDone \<notin> set evs \<and> (\<forall>e \<in> set evs. \<not> is_transfer e) \<and>
            GroupStart \<notin> set evs \<and> returns_error r)"
proof -
  from six_list [OF len] obtain b0 b1 b2 b3 b4 b5 where bufs: "buffers = [b0, b1, b2, b3, b4, b5]"
    by blast
  note defs = RunRaggedAllToAll_def LoadOffsetAndSizeOperands_def load_loop.simps issue_def
    new_events_def staging_succeeds_def
  consider
      (reg) e where "MaybeRegisterBuffers_status c = Some e"
    | (num) e where "MaybeRegisterBuffers_status c = None" "NumRanks_result c = Inl e"
    | (copy) nr where "MaybeRegisterBuffers_status c = None" "NumRanks_result c = Inr nr"
        "Memcpy_status c 2 \<noteq> None \<or> Memcpy_status c 3 \<noteq> None \<or> Memcpy_status c 4 \<noteq> None
           \<or> Memcpy_status c 5 \<noteq> None"
    | (staged) nr where "MaybeRegisterBuffers_status c = None" "NumRanks_result c = Inr nr"
        "Memcpy_status c 2 = None" "Memcpy_status c 3 = None" "Memcpy_status c 4 = None"
        "Memcpy_status c 5 = None"
    by (cases "MaybeRegisterBuffers_status c"; cases "NumRanks_result c") auto
  then show ?thesis
  proof cases
    case reg
    then show ?thesis by (simp add: evs r bufs defs)
  next
    case num
    then show ?thesis by (simp add: evs r bufs defs)
  next
    case copy
    then show ?thesis
      by (cases "Memcpy_status c 2"; cases "Memcpy_status c 3"; cases "Memcpy_status c 4";
          cases "Memcpy_status c 5") (simp_all add: evs r bufs defs)
  next
    case staged
    then have ok: "staging_succeeds c" by (simp add: staging_succeeds_def)
    show ?thesis
    proof (cases "BlockHostUntilDone_status c")
      case (Some blocked)
      with staged ok show ?thesis
        by (simp add: evs r bufs RunRaggedAllToAll_def LoadOffsetAndSizeOperands_def load_six_ok
            issue_def new_events_def staging_copies_six)
    next
      case None
      note wait = None
      show ?thesis
      proof (cases "GroupStart_status c")
        case (Some e)
        with staged wait ok show ?thesis
          by (simp add: evs r bufs RunRaggedAllToAll_def LoadOffsetAndSizeOperands_def load_six_ok
              issue_def new_events_def staging_copies_six)
      next
        case None
        let ?W = "w\<lparr>host := staged_host (device_memory c) (element_count b2) base (source_buffer b2)
            (source_buffer b3) (source_buffer b4) (source_buffer b5) (host w),
          trace := trace w @
           [MaybeRegisterBuffers, NumRanks,
            Memcpy base (source_buffer b2) (size_bytes (source_buffer b2)),
            Memcpy (base + 8 * element_count b2) (source_buffer b3)
              (size_bytes (source_buffer b3)),
            Memcpy (base + 8 * element_count b2 + 8 * element_count b2) (source_buffer b4)
              (size_bytes (source_buffer b4)),
            Memcpy (base + 8 * element_count b2 + 8 * element_count b2 + 8 * element_count b2)
              (source_buffer b5) (size_bytes (source_buffer b5)),
            BlockHostUntilDone, GroupStart]\<rparr>"
        let ?loop = "peer_loop c rres b0
          \<lparr>iod_element_type = element_type b2, iod_data = base\<rparr>
          \<lparr>iod_element_type = element_type b3, iod_data = base + 8 * element_count b2\<rparr>
          \<lparr>iod_element_type = element_type b4,
             iod_data = base + 8 * element_count b2 + 8 * element_count b2\<rparr>
          \<lparr>iod_element_type = element_type b5,
             iod_data = base + 8 * element_count b2 + 8 * element_count b2 + 8 * element_count b2\<rparr>
          0 (nat (sint nr)) ?W"
        have run: "RunRaggedAllToAll c rres [b0, b1, b2, b3, b4, b5] base w = end_group c ?loop"
          using staged wait None by (rule Run_six_staged)
        obtain pevs where pevs: "snd ?loop = ?W\<lparr>trace := trace ?W @ pevs\<rparr>"
          "\<forall>e \<in> set pevs. is_transfer e"
          using peer_loop_trace by blast
        obtain pr pw where loop: "?loop = (pr, pw)" by (cases ?loop) auto
        with pevs have pw: "pw = ?W\<lparr>trace := trace ?W @ pevs\<rparr>" by simp
        have quiet: "\<forall>e \<in> set pevs. \<not> is_copy e \<and> e \<noteq> BlockHostUntilDone"
          using pevs(2) transfer_not_staging by blast
        have res: "RunRaggedAllToAll c rres [b0, b1, b2, b3, b4, b5] base w =
            end_group c (pr, ?W\<lparr>trace := trace ?W @ pevs\<rparr>)"
          by (simp only: run loop pw)
        show ?thesis
          using wait quiet ok
          by (cases pr; cases "GroupEnd_status c")
            (simp_all add: evs r bufs res end_group_def issue_def new_events_def
              staging_copies_six)
      qed
    qed
  qed
qed

theorem wait_after_staging_witness:
  "fst (RunRaggedAllToAll wait_fails 4 scenario_buffers 5000 empty_world) =
     Err (Error kInternal
       ''Failed to complete all kernels launched on stream 0x1: device lost'') \<and>
   new_events empty_world (snd (RunRaggedAllToAll wait_fails 4 scenario_buffers 5000 empty_world)) =
     [MaybeRegisterBuffers, NumRanks,
      Memcpy 5000 (DeviceMemoryBase 1000 8) 8, Memcpy 5016 (DeviceMemoryBase 2000 8) 8,
      Memcpy 5032 (DeviceMemoryBase 3000 8) 8, Memcpy 5048 (DeviceMemoryBase 4000 8) 8,
      BlockHostUntilDone] \<and>
   take 8 (new_events empty_world
       (snd (RunRaggedAllToAll ok_collaborators 4 scenario_buffers 5000 empty_world))) =
     [MaybeRegisterBuffers, NumRanks,
      Memcpy 5000 (DeviceMemoryBase 1000 8) 8, Memcpy 5016 (DeviceMemoryBase 2000 8) 8,
      Memcpy 5032 (DeviceMemoryBase 3000 8) 8, Memcpy 5048 (DeviceMemoryBase 4000 8) 8,
      BlockHostUntilDone, GroupStart] \<and>
   BlockHostUntilDone \<notin> set (new_events empty_world
       (snd (RunRaggedAllToAll copy_fails 4 scenario_buffers 5000 empty_world))) \<and>
   GroupStart \<notin> set (new_events empty_world
       (snd (RunRaggedAllToAll copy_fails 4 scenario_buffers 5000 empty_world))) \<and>
   returns_error (fst (RunRaggedAllToAll copy_fails 4 scenario_buffers 5000 empty_world))"
proof -
  have len: "length scenario_buffers = 6" by (simp add: scenario_buffers_def)
  have s1: "staging_succeeds wait_fails" "BlockHostUntilDone_status wait_fails \<noteq> None"
    by (simp_all add: staging_succeeds_def wait_fails_def ok_collaborators_def)
  have s2: "staging_succeeds ok_collaborators" "BlockHostUntilDone_status ok_collaborators = None"
    by (simp_all add: staging_succeeds_def ok_collaborators_def)
  have s3: "\<not> staging_succeeds copy_fails"
    by (simp add: staging_succeeds_def copy_fails_def ok_collaborators_def)
  let ?e1 = "new_events empty_world
      (snd (RunRaggedAllToAll wait_fails 4 scenario_buffers 5000 empty_world))"
  let ?e2 = "new_events empty_world
      (snd (RunRaggedAllToAll ok_collaborators 4 scenario_buffers 5000 empty_world))"
  from wait_after_staging [where w = empty_world and c = wait_fails and rres = 4 and base = 5000, OF len refl refl] s1
  have a: "take 7 ?e1 = [MaybeRegisterBuffers, NumRanks] @ staging_copies scenario_buffers 5000
          @ [BlockHostUntilDone]" "drop 7 ?e1 = []"
      "fst (RunRaggedAllToAll wait_fails 4 scenario_buffers 5000 empty_world) =
        Err (Error kInternal
          (''Failed to complete all kernels launched on stream '' @ stream_ptr wait_fails
             @ '': '' @ message (the (BlockHostUntilDone_status wait_fails))))"
    by blast+
  have e1: "?e1 = [MaybeRegisterBuffers, NumRanks] @ staging_copies scenario_buffers 5000
          @ [BlockHostUntilDone]"
    using a(1,2) by (metis append_take_drop_id append_Nil2)
  from wait_after_staging [where w = empty_world and c = ok_collaborators and rres = 4 and base = 5000, OF len refl refl] s2
  have b: "take 7 ?e2 = [MaybeRegisterBuffers, NumRanks] @ staging_copies scenario_buffers 5000
          @ [BlockHostUntilDone]" "take 1 (drop 7 ?e2) = [GroupStart]"
    by blast+
  have "take 8 ?e2 = take 7 ?e2 @ take 1 (drop 7 ?e2)"
    using take_add [of 7 1 ?e2] by simp
  with b have e2: "take 8 ?e2 = [MaybeRegisterBuffers, NumRanks]
      @ staging_copies scenario_buffers 5000 @ [BlockHostUntilDone, GroupStart]"
    by simp
  from wait_after_staging [where w = empty_world and c = copy_fails and rres = 4 and base = 5000, OF len refl refl] s3
  have c: "BlockHostUntilDone \<notin> set (new_events empty_world
       (snd (RunRaggedAllToAll copy_fails 4 scenario_buffers 5000 empty_world)))"
    "GroupStart \<notin> set (new_events empty_world
       (snd (RunRaggedAllToAll copy_fails 4 scenario_buffers 5000 empty_world)))"
    "returns_error (fst (RunRaggedAllToAll copy_fails 4 scenario_buffers 5000 empty_world))"
    by blast+
  have copies: "staging_copies scenario_buffers 5000 =
      [Memcpy 5000 (DeviceMemoryBase 1000 8) 8, Memcpy 5016 (DeviceMemoryBase 2000 8) 8,
       Memcpy 5032 (DeviceMemoryBase 3000 8) 8, Memcpy 5048 (DeviceMemoryBase 4000 8) 8]"
    by (simp add: staging_copies_def scenario_buffers_def index_binding_def)
  have msg: "stream_ptr wait_fails = ''0x1''"
    "message (the (BlockHostUntilDone_status wait_fails)) = ''device lost''"
    by (simp_all add: wait_fails_def ok_collaborators_def)
  show ?thesis
    using a(3) e1 e2 c by (simp add: copies msg)
qed

text \<open>
  C2 as stated fails: the wait fails with the status \<open>Unavailable\<close>, \<open>device lost\<close>, and the
  run returns an \<open>Internal\<close> status with another message, not that status.
\<close>

theorem wait_error_counterexample:
  "BlockHostUntilDone_status wait_fails = Some (Error kUnavailable ''device lost'') \<and>
   fst (RunRaggedAllToAll wait_fails 4 scenario_buffers 5000 empty_world) =
     Err (Error kInternal
       ''Failed to complete all kernels launched on stream 0x1: device lost'') \<and>
   fst (RunRaggedAllToAll wait_fails 4 scenario_buffers 5000 empty_world) \<noteq>
     Err (Error kUnavailable ''device lost'')"
  by (simp add: scenario_defs run_defs)


section \<open>Where the index arrays are staged\<close>

lemma LoadOffsetAndSizeOperands_six_events:
  assumes "Memcpy_status c 2 = None" "Memcpy_status c 3 = None" "Memcpy_status c 4 = None"
    "Memcpy_status c 5 = None"
  shows "new_events w (snd (LoadOffsetAndSizeOperands c [b0, b1, b2, b3, b4, b5] base w)) =
     staging_copies [b0, b1, b2, b3, b4, b5] base @ [BlockHostUntilDone]"
  using assms
  by (cases "BlockHostUntilDone_status c")
    (simp_all add: LoadOffsetAndSizeOperands_def load_six_ok issue_def new_events_def
      staging_copies_six)

lemma size_le_region:
  assumes "0 \<le> (R::int)" "z = nat R * k" "k \<le> 8"
  shows "int z \<le> 8 * R"
proof -
  have "int z = R * int k" using assms by simp
  also have "\<dots> \<le> R * 8" using assms by (intro mult_left_mono) simp_all
  finally show ?thesis by simp
qed

text \<open>
  C10: with six bindings and four successful copies, the array of binding \<open>i + 2\<close> is
  copied to byte offset \<open>i * R * 8\<close> of the staging region, \<open>R\<close> being the element count
  of binding 2. When each of the four source buffers has \<open>R\<close> elements of at most eight
  bytes, the four byte ranges are pairwise disjoint and lie in the first \<open>4 * R * 8\<close> bytes
  from the base, which is the size \<open>Initialize\<close> asks \<open>HostMemoryAllocate\<close> for when
  \<open>num_ragged_rows\<close> is \<open>R\<close>.
\<close>

theorem staging_ranges:
  assumes bufs: "buffers = [b0, b1, b2, b3, b4, b5]"
    and ok: "Memcpy_status c 2 = None" "Memcpy_status c 3 = None" "Memcpy_status c 4 = None"
      "Memcpy_status c 5 = None"
    and count: "element_count b2 = R" "0 \<le> R" "R < 2 ^ 59"
    and z2: "size_bytes (source_buffer b2) = nat R * k2" "k2 \<le> 8"
    and z3: "size_bytes (source_buffer b3) = nat R * k3" "k3 \<le> 8"
    and z4: "size_bytes (source_buffer b4) = nat R * k4" "k4 \<le> 8"
    and z5: "size_bytes (source_buffer b5) = nat R * k5" "k5 \<le> 8"
    and rows: "num_ragged_rows config = word_of_int R"
    and fresh: "host_buffer_allocs s (executor p) = None"
    and init: "Initialize config p s = (None, s1)"
  shows "filter is_copy (new_events w (snd (LoadOffsetAndSizeOperands c buffers base w))) =
           [Memcpy (base + 0 * R * 8) (source_buffer b2) (nat R * k2),
            Memcpy (base + 1 * R * 8) (source_buffer b3) (nat R * k3),
            Memcpy (base + 2 * R * 8) (source_buffer b4) (nat R * k4),
            Memcpy (base + 3 * R * 8) (source_buffer b5) (nat R * k5)] \<and>
         byte_range (base + 0 * R * 8) (nat R * k2) \<inter> byte_range (base + 1 * R * 8) (nat R * k3) = {} \<and>
         byte_range (base + 0 * R * 8) (nat R * k2) \<inter> byte_range (base + 2 * R * 8) (nat R * k4) = {} \<and>
         byte_range (base + 0 * R * 8) (nat R * k2) \<inter> byte_range (base + 3 * R * 8) (nat R * k5) = {} \<and>
         byte_range (base + 1 * R * 8) (nat R * k3) \<inter> byte_range (base + 2 * R * 8) (nat R * k4) = {} \<and>
         byte_range (base + 1 * R * 8) (nat R * k3) \<inter> byte_range (base + 3 * R * 8) (nat R * k5) = {} \<and>
         byte_range (base + 2 * R * 8) (nat R * k4) \<inter> byte_range (base + 3 * R * 8) (nat R * k5) = {} \<and>
         byte_range (base + 0 * R * 8) (nat R * k2) \<subseteq> byte_range base (4 * nat R * 8) \<and>
         byte_range (base + 1 * R * 8) (nat R * k3) \<subseteq> byte_range base (4 * nat R * 8) \<and>
         byte_range (base + 2 * R * 8) (nat R * k4) \<subseteq> byte_range base (4 * nat R * 8) \<and>
         byte_range (base + 3 * R * 8) (nat R * k5) \<subseteq> byte_range base (4 * nat R * 8) \<and>
         allocations s1 = allocations s @ [(executor p, 4 * num_ragged_rows config * 8)] \<and>
         unat (4 * num_ragged_rows config * 8) = 4 * nat R * 8"
proof -
  have copies: "filter is_copy (new_events w (snd (LoadOffsetAndSizeOperands c buffers base w))) =
           [Memcpy (base + 0 * R * 8) (source_buffer b2) (nat R * k2),
            Memcpy (base + 1 * R * 8) (source_buffer b3) (nat R * k3),
            Memcpy (base + 2 * R * 8) (source_buffer b4) (nat R * k4),
            Memcpy (base + 3 * R * 8) (source_buffer b5) (nat R * k5)]"
    using count(1) z2(1) z3(1) z4(1) z5(1)
    by (simp add: bufs LoadOffsetAndSizeOperands_six_events [OF ok] staging_copies_def)
  have le: "int (nat R * k2) \<le> 8 * R" "int (nat R * k3) \<le> 8 * R" "int (nat R * k4) \<le> 8 * R"
    "int (nat R * k5) \<le> 8 * R"
    using size_le_region [OF count(2) refl] z2(2) z3(2) z4(2) z5(2) by blast+
  have disjoint:
    "byte_range (base + 0 * R * 8) (nat R * k2) \<inter> byte_range (base + 1 * R * 8) (nat R * k3) = {}"
    "byte_range (base + 0 * R * 8) (nat R * k2) \<inter> byte_range (base + 2 * R * 8) (nat R * k4) = {}"
    "byte_range (base + 0 * R * 8) (nat R * k2) \<inter> byte_range (base + 3 * R * 8) (nat R * k5) = {}"
    "byte_range (base + 1 * R * 8) (nat R * k3) \<inter> byte_range (base + 2 * R * 8) (nat R * k4) = {}"
    "byte_range (base + 1 * R * 8) (nat R * k3) \<inter> byte_range (base + 3 * R * 8) (nat R * k5) = {}"
    "byte_range (base + 2 * R * 8) (nat R * k4) \<inter> byte_range (base + 3 * R * 8) (nat R * k5) = {}"
    using le count(2) unfolding byte_range_def by auto
  have inside:
    "byte_range (base + 0 * R * 8) (nat R * k2) \<subseteq> byte_range base (4 * nat R * 8)"
    "byte_range (base + 1 * R * 8) (nat R * k3) \<subseteq> byte_range base (4 * nat R * 8)"
    "byte_range (base + 2 * R * 8) (nat R * k4) \<subseteq> byte_range base (4 * nat R * 8)"
    "byte_range (base + 3 * R * 8) (nat R * k5) \<subseteq> byte_range base (4 * nat R * 8)"
    using le count(2) unfolding byte_range_def by auto
  have "unat (word_of_int R :: 64 word) = nat R"
    using count(2,3) by (simp add: unat_eq_nat_uint uint_word_of_int take_bit_int_eq_self)
  then have u: "unat (num_ragged_rows config) = nat R" by (simp add: rows)
  then have "unat (num_ragged_rows config) < 2 ^ 59" using count(2,3) by simp
  then have size: "unat (4 * num_ragged_rows config * 8) = 4 * nat R * 8"
    using allocation_size_no_wrap u by simp
  from Initialize_fresh_ok [OF fresh init]
  have alloc: "allocations s1 = allocations s @ [(executor p, 4 * num_ragged_rows config * 8)]"
    by auto
  show ?thesis
    using copies disjoint inside alloc size by blast
qed

theorem staging_ranges_witness:
  "filter is_copy (new_events empty_world
       (snd (LoadOffsetAndSizeOperands ok_collaborators scenario_buffers 5000 empty_world))) =
     [Memcpy 5000 (DeviceMemoryBase 1000 8) 8, Memcpy 5016 (DeviceMemoryBase 2000 8) 8,
      Memcpy 5032 (DeviceMemoryBase 3000 8) 8, Memcpy 5048 (DeviceMemoryBase 4000 8) 8] \<and>
   byte_range 5000 8 \<inter> byte_range 5016 8 = {} \<and>
   byte_range 5048 8 \<subseteq> byte_range 5000 64 \<and>
   allocations (snd (Initialize two_rows (init_params 0 5000) empty_thunk)) = [(0, 64)]"
proof -
  have init: "Initialize two_rows (init_params 0 5000) empty_thunk =
      (None, snd (Initialize two_rows (init_params 0 5000) empty_thunk))"
    by (simp add: Initialize_def two_rows_def init_params_def empty_thunk_def)
  have fresh: "host_buffer_allocs empty_thunk (executor (init_params 0 5000)) = None"
    by (simp add: empty_thunk_def)
  have rows: "num_ragged_rows two_rows = word_of_int 2" by (simp add: two_rows_def)
  from staging_ranges [where buffers = scenario_buffers and ?b0.0 = payload
      and ?b1.0 = output_binding and ?b2.0 = "index_binding 1000"
      and ?b3.0 = "index_binding 2000" and ?b4.0 = "index_binding 3000"
      and ?b5.0 = "index_binding 4000" and c = ok_collaborators and R = 2 and ?k2.0 = 4
      and ?k3.0 = 4 and ?k4.0 = 4 and ?k5.0 = 4 and base = 5000 and w = empty_world,
      OF _ _ _ _ _ _ _ _ _ _ _ _ _ _ _ _ rows fresh init]
  show ?thesis
    by (simp add: scenario_buffers_def ok_collaborators_def index_binding_def two_rows_def
        init_params_def empty_thunk_def)
qed

text \<open>
  C4, as the code has it: the bindings consumed are six. The four arrays staged are
  bindings 2, 3, 4 and 5, in this order, each copied whole; the accessors over them are,
  in this order, the \<open>input_offsets\<close>, \<open>send_sizes\<close>, \<open>output_offsets\<close> and \<open>recv_sizes\<close> of
  the peer loop, and the payload of the loop is binding 0. Binding 1 is neither staged
  nor sliced.
\<close>

theorem six_bindings_roles:
  assumes bufs: "buffers = [b0, b1, b2, b3, b4, b5]"
    and ok: "MaybeRegisterBuffers_status c = None" "NumRanks_result c = Inr nr"
      "Memcpy_status c 2 = None" "Memcpy_status c 3 = None" "Memcpy_status c 4 = None"
      "Memcpy_status c 5 = None" "BlockHostUntilDone_status c = None"
      "GroupStart_status c = None"
  shows "fst (LoadOffsetAndSizeOperands c buffers base w) =
           Ok [\<lparr>iod_element_type = element_type b2, iod_data = base\<rparr>,
               \<lparr>iod_element_type = element_type b3, iod_data = base + 1 * element_count b2 * 8\<rparr>,
               \<lparr>iod_element_type = element_type b4, iod_data = base + 2 * element_count b2 * 8\<rparr>,
               \<lparr>iod_element_type = element_type b5, iod_data = base + 3 * element_count b2 * 8\<rparr>] \<and>
         filter is_copy (new_events w (snd (LoadOffsetAndSizeOperands c buffers base w))) =
           [Memcpy base (source_buffer b2) (size_bytes (source_buffer b2)),
            Memcpy (base + 1 * element_count b2 * 8) (source_buffer b3)
              (size_bytes (source_buffer b3)),
            Memcpy (base + 2 * element_count b2 * 8) (source_buffer b4)
              (size_bytes (source_buffer b4)),
            Memcpy (base + 3 * element_count b2 * 8) (source_buffer b5)
              (size_bytes (source_buffer b5))] \<and>
         RunRaggedAllToAll c rres buffers base w =
           end_group c
             (peer_loop c rres b0
                \<lparr>iod_element_type = element_type b2, iod_data = base\<rparr>
                \<lparr>iod_element_type = element_type b3, iod_data = base + 1 * element_count b2 * 8\<rparr>
                \<lparr>iod_element_type = element_type b4, iod_data = base + 2 * element_count b2 * 8\<rparr>
                \<lparr>iod_element_type = element_type b5, iod_data = base + 3 * element_count b2 * 8\<rparr>
                0 (nat (sint nr))
                (issue GroupStart
                   (snd (LoadOffsetAndSizeOperands c buffers base
                      (issue NumRanks (issue MaybeRegisterBuffers w))))))"
proof -
  have "fst (LoadOffsetAndSizeOperands c buffers base w) =
           Ok [\<lparr>iod_element_type = element_type b2, iod_data = base\<rparr>,
               \<lparr>iod_element_type = element_type b3, iod_data = base + 1 * element_count b2 * 8\<rparr>,
               \<lparr>iod_element_type = element_type b4, iod_data = base + 2 * element_count b2 * 8\<rparr>,
               \<lparr>iod_element_type = element_type b5, iod_data = base + 3 * element_count b2 * 8\<rparr>]"
    using ok by (simp add: bufs LoadOffsetAndSizeOperands_def load_six_ok)
  moreover have "filter is_copy (new_events w (snd (LoadOffsetAndSizeOperands c buffers base w))) =
           [Memcpy base (source_buffer b2) (size_bytes (source_buffer b2)),
            Memcpy (base + 1 * element_count b2 * 8) (source_buffer b3)
              (size_bytes (source_buffer b3)),
            Memcpy (base + 2 * element_count b2 * 8) (source_buffer b4)
              (size_bytes (source_buffer b4)),
            Memcpy (base + 3 * element_count b2 * 8) (source_buffer b5)
              (size_bytes (source_buffer b5))]"
    using ok by (simp add: bufs LoadOffsetAndSizeOperands_six_events staging_copies_def)
  moreover have "RunRaggedAllToAll c rres buffers base w =
           end_group c
             (peer_loop c rres b0
                \<lparr>iod_element_type = element_type b2, iod_data = base\<rparr>
                \<lparr>iod_element_type = element_type b3, iod_data = base + 1 * element_count b2 * 8\<rparr>
                \<lparr>iod_element_type = element_type b4, iod_data = base + 2 * element_count b2 * 8\<rparr>
                \<lparr>iod_element_type = element_type b5, iod_data = base + 3 * element_count b2 * 8\<rparr>
                0 (nat (sint nr))
                (issue GroupStart
                   (snd (LoadOffsetAndSizeOperands c buffers base
                      (issue NumRanks (issue MaybeRegisterBuffers w))))))"
  proof -
    have world: "issue GroupStart
        (snd (LoadOffsetAndSizeOperands c [b0, b1, b2, b3, b4, b5] base
           (issue NumRanks (issue MaybeRegisterBuffers w)))) =
      w\<lparr>host := staged_host (device_memory c) (element_count b2) base (source_buffer b2)
            (source_buffer b3) (source_buffer b4) (source_buffer b5) (host w),
          trace := trace w @
           [MaybeRegisterBuffers, NumRanks,
            Memcpy base (source_buffer b2) (size_bytes (source_buffer b2)),
            Memcpy (base + 8 * element_count b2) (source_buffer b3)
              (size_bytes (source_buffer b3)),
            Memcpy (base + 8 * element_count b2 + 8 * element_count b2) (source_buffer b4)
              (size_bytes (source_buffer b4)),
            Memcpy (base + 8 * element_count b2 + 8 * element_count b2 + 8 * element_count b2)
              (source_buffer b5) (size_bytes (source_buffer b5)),
            BlockHostUntilDone, GroupStart]\<rparr>"
      using ok by (simp add: LoadOffsetAndSizeOperands_def load_six_ok issue_def)
    have offs: "base + 1 * element_count b2 * 8 = base + 8 * element_count b2"
      "base + 2 * element_count b2 * 8 = base + 8 * element_count b2 + 8 * element_count b2"
      "base + 3 * element_count b2 * 8 =
         base + 8 * element_count b2 + 8 * element_count b2 + 8 * element_count b2"
      by simp_all
    show ?thesis
      by (simp only: bufs world offs) (rule Run_six_staged [OF ok])
  qed
  ultimately show ?thesis by blast
qed

theorem six_bindings_roles_witness:
  "fst (LoadOffsetAndSizeOperands ok_collaborators scenario_buffers 5000 empty_world) =
     Ok [\<lparr>iod_element_type = S32, iod_data = 5000\<rparr>, \<lparr>iod_element_type = S32, iod_data = 5016\<rparr>,
         \<lparr>iod_element_type = S32, iod_data = 5032\<rparr>, \<lparr>iod_element_type = S32, iod_data = 5048\<rparr>] \<and>
   filter is_copy (new_events empty_world
       (snd (LoadOffsetAndSizeOperands ok_collaborators scenario_buffers 5000 empty_world))) =
     [Memcpy 5000 (DeviceMemoryBase 1000 8) 8, Memcpy 5016 (DeviceMemoryBase 2000 8) 8,
      Memcpy 5032 (DeviceMemoryBase 3000 8) 8, Memcpy 5048 (DeviceMemoryBase 4000 8) 8]"
  using six_bindings_roles [where buffers = scenario_buffers and ?b0.0 = payload
      and ?b1.0 = output_binding and ?b2.0 = "index_binding 1000"
      and ?b3.0 = "index_binding 2000" and ?b4.0 = "index_binding 3000"
      and ?b5.0 = "index_binding 4000" and c = ok_collaborators and nr = 2 and base = 5000
      and w = empty_world and rres = 4]
  by (simp add: scenario_buffers_def ok_collaborators_def index_binding_def)

text \<open>
  C4 as stated fails: with five bindings, the index arrays at positions 1 to 4, the array
  at position 1 is never staged, three copies are made (positions 2, 3 and 4), and the
  fourth accessor, \<open>index_operands[3]\<close>, is out of range.
\<close>

theorem five_bindings_counterexample:
  "length five_buffers = 5 \<and>
   five_buffers ! 1 = index_binding 1000 \<and>
   filter is_copy (trace (snd (RunRaggedAllToAll ok_collaborators 4 five_buffers 5000 empty_world))) =
     [Memcpy 5000 (DeviceMemoryBase 2000 8) 8, Memcpy 5016 (DeviceMemoryBase 3000 8) 8,
      Memcpy 5032 (DeviceMemoryBase 4000 8) 8] \<and>
   fst (RunRaggedAllToAll ok_collaborators 4 five_buffers 5000 empty_world) = Undefined"
  by (simp add: scenario_defs run_defs)

section \<open>The slices sent and received\<close>

lemma staged_byte:
  assumes "0 \<le> N" "N \<le> n" "0 \<le> d" "d < 8 * N"
  shows "d < int (size_bytes s2) \<Longrightarrow>
           staged_host dev n base s2 s3 s4 s5 h (base + d) = dev (opaque s2 + d)"
    and "d < int (size_bytes s3) \<Longrightarrow>
           staged_host dev n base s2 s3 s4 s5 h (base + 8 * n + d) = dev (opaque s3 + d)"
    and "d < int (size_bytes s4) \<Longrightarrow>
           staged_host dev n base s2 s3 s4 s5 h (base + 8 * n + 8 * n + d) = dev (opaque s4 + d)"
    and "d < int (size_bytes s5) \<Longrightarrow>
           staged_host dev n base s2 s3 s4 s5 h (base + 8 * n + 8 * n + 8 * n + d) =
             dev (opaque s5 + d)"
  using assms by (simp_all add: staged_host_def copy_to_host_def)

lemma load_int32_eq:
  assumes "\<And>t. 0 \<le> t \<Longrightarrow> t < 4 \<Longrightarrow> m1 (a + t) = m2 (b + t)"
  shows "load_int32 m1 a = load_int32 m2 b"
  using assms [of 0] assms [of 1] assms [of 2] assms [of 3] by (simp add: load_int32_def)

lemma load_int64_eq:
  assumes "\<And>t. 0 \<le> t \<Longrightarrow> t < 8 \<Longrightarrow> m1 (a + t) = m2 (b + t)"
  shows "load_int64 m1 a = load_int64 m2 b"
proof -
  have "load_int32 m1 a = load_int32 m2 b"
    using assms by (intro load_int32_eq) simp
  moreover have "load_int32 m1 (a + 4) = load_int32 m2 (b + 4)"
  proof (rule load_int32_eq)
    fix t :: int assume "0 \<le> t" "t < 4"
    then show "m1 (a + 4 + t) = m2 (b + 4 + t)"
      using assms [of "4 + t"] by (simp add: add.assoc)
  qed
  ultimately show ?thesis by (simp add: load_int64_def)
qed


lemma get_staged_eq:
  assumes bytes: "\<And>d. 0 \<le> d \<Longrightarrow> d < int (index_width t) * N \<Longrightarrow> H (p + d) = dev (q + d)"
    and k: "0 \<le> k" "k < N"
  shows "get H \<lparr>iod_element_type = t, iod_data = p\<rparr> k =
         get dev \<lparr>iod_element_type = t, iod_data = q\<rparr> k"
proof -
  have narrow: "load_int32 H (p + 4 * k) = load_int32 dev (q + 4 * k)" if "t = S32 \<or> t = U32"
  proof (rule load_int32_eq)
    fix d :: int assume "0 \<le> d" "d < 4"
    with k that show "H (p + 4 * k + d) = dev (q + 4 * k + d)"
      using bytes [of "4 * k + d"] by (auto simp: index_width_def add.assoc)
  qed
  have wide: "load_int64 H (p + 8 * k) = load_int64 dev (q + 8 * k)" if "t = S64 \<or> t = U64"
  proof (rule load_int64_eq)
    fix d :: int assume "0 \<le> d" "d < 8"
    with k that show "H (p + 8 * k + d) = dev (q + 8 * k + d)"
      using bytes [of "8 * k + d"] by (auto simp: index_width_def add.assoc)
  qed
  show ?thesis
    using narrow wide by (cases t) (simp_all add: get_def)
qed

lemma staged_get:
  assumes N: "N \<le> n" and k: "0 \<le> k" "k < N"
  shows "int (index_width t) * N \<le> int (size_bytes s2) \<Longrightarrow>
           get (staged_host dev n base s2 s3 s4 s5 h) \<lparr>iod_element_type = t, iod_data = base\<rparr> k =
           get dev \<lparr>iod_element_type = t, iod_data = opaque s2\<rparr> k"
    and "int (index_width t) * N \<le> int (size_bytes s3) \<Longrightarrow>
           get (staged_host dev n base s2 s3 s4 s5 h)
             \<lparr>iod_element_type = t, iod_data = base + 8 * n\<rparr> k =
           get dev \<lparr>iod_element_type = t, iod_data = opaque s3\<rparr> k"
    and "int (index_width t) * N \<le> int (size_bytes s4) \<Longrightarrow>
           get (staged_host dev n base s2 s3 s4 s5 h)
             \<lparr>iod_element_type = t, iod_data = base + 8 * n + 8 * n\<rparr> k =
           get dev \<lparr>iod_element_type = t, iod_data = opaque s4\<rparr> k"
    and "int (index_width t) * N \<le> int (size_bytes s5) \<Longrightarrow>
           get (staged_host dev n base s2 s3 s4 s5 h)
             \<lparr>iod_element_type = t, iod_data = base + 8 * n + 8 * n + 8 * n\<rparr> k =
           get dev \<lparr>iod_element_type = t, iod_data = opaque s5\<rparr> k"
proof -
  have N0: "0 \<le> N" using k by simp
  have w8: "d < int (index_width t) * N \<Longrightarrow> d < 8 * N" for d
    using N0 by (cases "t = S32 \<or> t = U32") (simp_all add: index_width_def)
  show "int (index_width t) * N \<le> int (size_bytes s2) \<Longrightarrow>
           get (staged_host dev n base s2 s3 s4 s5 h) \<lparr>iod_element_type = t, iod_data = base\<rparr> k =
           get dev \<lparr>iod_element_type = t, iod_data = opaque s2\<rparr> k"
    by (rule get_staged_eq [OF _ k]) (rule staged_byte(1) [OF N0 N], use w8 in auto)
  show "int (index_width t) * N \<le> int (size_bytes s3) \<Longrightarrow>
           get (staged_host dev n base s2 s3 s4 s5 h)
             \<lparr>iod_element_type = t, iod_data = base + 8 * n\<rparr> k =
           get dev \<lparr>iod_element_type = t, iod_data = opaque s3\<rparr> k"
    by (rule get_staged_eq [OF _ k]) (rule staged_byte(2) [OF N0 N], use w8 in auto)
  show "int (index_width t) * N \<le> int (size_bytes s4) \<Longrightarrow>
           get (staged_host dev n base s2 s3 s4 s5 h)
             \<lparr>iod_element_type = t, iod_data = base + 8 * n + 8 * n\<rparr> k =
           get dev \<lparr>iod_element_type = t, iod_data = opaque s4\<rparr> k"
    by (rule get_staged_eq [OF _ k]) (rule staged_byte(3) [OF N0 N], use w8 in auto)
  show "int (index_width t) * N \<le> int (size_bytes s5) \<Longrightarrow>
           get (staged_host dev n base s2 s3 s4 s5 h)
             \<lparr>iod_element_type = t, iod_data = base + 8 * n + 8 * n + 8 * n\<rparr> k =
           get dev \<lparr>iod_element_type = t, iod_data = opaque s5\<rparr> k"
    by (rule get_staged_eq [OF _ k]) (rule staged_byte(4) [OF N0 N], use w8 in auto)
qed

lemma peer_loop_success:
  assumes "\<forall>k. p \<le> k \<and> k < N \<longrightarrow>
      Send_status c k = None \<and> Recv_status c k = None \<and>
      read_indices (host w) a1 a2 a3 a4 (int k) = Ok (io k, ss k, oo k, rs k)"
  shows "peer_loop c r b a1 a2 a3 a4 p N w =
    (Ok (), w\<lparr>trace := trace w @ peer_events r b io ss oo rs [p..<N]\<rparr>)"
  using assms
proof (induction "N - p" arbitrary: p w)
  case 0
  then have "\<not> p < N" by simp
  then show ?case by (simp add: peer_loop.simps peer_events_def)
next
  case (Suc m)
  then have lt: "p < N" by simp
  let ?w = "issue (recv_event r b (oo p) (rs p) p) (issue (send_event r b (io p) (ss p) p) w)"
  from Suc.prems lt have here: "Send_status c p = None" "Recv_status c p = None"
    "read_indices (host w) a1 a2 a3 a4 (int p) = Ok (io p, ss p, oo p, rs p)"
    by simp_all
  have step: "peer_loop c r b a1 a2 a3 a4 p N w = peer_loop c r b a1 a2 a3 a4 (p + 1) N ?w"
    using lt here by (subst peer_loop.simps) simp
  have "m = N - (p + 1)" using Suc.hyps(2) by simp
  moreover have "\<forall>k. p + 1 \<le> k \<and> k < N \<longrightarrow>
      Send_status c k = None \<and> Recv_status c k = None \<and>
      read_indices (host ?w) a1 a2 a3 a4 (int k) = Ok (io k, ss k, oo k, rs k)"
    using Suc.prems by (simp add: issue_def)
  ultimately have "peer_loop c r b a1 a2 a3 a4 (p + 1) N ?w =
      (Ok (), ?w\<lparr>trace := trace ?w @ peer_events r b io ss oo rs [p + 1..<N]\<rparr>)"
    by (rule Suc.hyps(1))
  with step lt show ?case
    by (simp add: issue_def peer_events_def upt_conv_Cons)
qed

lemma RunRaggedAllToAll_decoded:
  assumes bufs: "buffers = [b0, b1, b2, b3, b4, b5]"
    and ok: "MaybeRegisterBuffers_status c = None" "NumRanks_result c = Inr nr"
      "Memcpy_status c 2 = None" "Memcpy_status c 3 = None" "Memcpy_status c 4 = None"
      "Memcpy_status c 5 = None" "BlockHostUntilDone_status c = None"
      "GroupStart_status c = None"
    and fin: "GroupEnd_status c = None"
    and N: "N = nat (sint nr)" "int N \<le> element_count b2"
    and peers: "\<forall>k<N. Send_status c k = None \<and> Recv_status c k = None"
    and sizes: "index_width (element_type b2) * N \<le> size_bytes (source_buffer b2)"
      "index_width (element_type b3) * N \<le> size_bytes (source_buffer b3)"
      "index_width (element_type b4) * N \<le> size_bytes (source_buffer b4)"
      "index_width (element_type b5) * N \<le> size_bytes (source_buffer b5)"
    and vals: "\<forall>k<N. device_array c b2 (int k) = Ok (input_offsets k) \<and>
      device_array c b3 (int k) = Ok (send_sizes k) \<and>
      device_array c b4 (int k) = Ok (output_offsets k) \<and>
      device_array c b5 (int k) = Ok (recv_sizes k)"
  shows "fst (RunRaggedAllToAll c rres buffers base w) = Ok () \<and>
         new_events w (snd (RunRaggedAllToAll c rres buffers base w)) =
           [MaybeRegisterBuffers, NumRanks] @ staging_copies buffers base
           @ [BlockHostUntilDone, GroupStart]
           @ concat (map (\<lambda>k.
                [Send (Slice (source_buffer b0) (element_type b0)
                         (input_offsets k * rres) (send_sizes k * rres))
                   (element_type b0) (send_sizes k * rres) k,
                 Recv (Slice (destination_buffer b0) (element_type b0)
                         (output_offsets k * rres) (recv_sizes k * rres))
                   (element_type b0) (recv_sizes k * rres) k]) [0..<N])
           @ [GroupEnd]"
proof -
  let ?n = "element_count b2"
  let ?H = "staged_host (device_memory c) ?n base (source_buffer b2) (source_buffer b3)
      (source_buffer b4) (source_buffer b5) (host w)"
  let ?W = "w\<lparr>host := ?H,
      trace := trace w @
        [MaybeRegisterBuffers, NumRanks,
         Memcpy base (source_buffer b2) (size_bytes (source_buffer b2)),
         Memcpy (base + 8 * ?n) (source_buffer b3) (size_bytes (source_buffer b3)),
         Memcpy (base + 8 * ?n + 8 * ?n) (source_buffer b4) (size_bytes (source_buffer b4)),
         Memcpy (base + 8 * ?n + 8 * ?n + 8 * ?n) (source_buffer b5)
           (size_bytes (source_buffer b5)),
         BlockHostUntilDone, GroupStart]\<rparr>"
  let ?A2 = "\<lparr>iod_element_type = element_type b2, iod_data = base\<rparr>"
  let ?A3 = "\<lparr>iod_element_type = element_type b3, iod_data = base + 8 * ?n\<rparr>"
  let ?A4 = "\<lparr>iod_element_type = element_type b4, iod_data = base + 8 * ?n + 8 * ?n\<rparr>"
  let ?A5 = "\<lparr>iod_element_type = element_type b5, iod_data = base + 8 * ?n + 8 * ?n + 8 * ?n\<rparr>"
  have run: "RunRaggedAllToAll c rres [b0, b1, b2, b3, b4, b5] base w =
      end_group c (peer_loop c rres b0 ?A2 ?A3 ?A4 ?A5 0 (nat (sint nr)) ?W)"
    using ok by (rule Run_six_staged)
  have z: "int (index_width (element_type b2)) * int N \<le> int (size_bytes (source_buffer b2))"
    "int (index_width (element_type b3)) * int N \<le> int (size_bytes (source_buffer b3))"
    "int (index_width (element_type b4)) * int N \<le> int (size_bytes (source_buffer b4))"
    "int (index_width (element_type b5)) * int N \<le> int (size_bytes (source_buffer b5))"
    using sizes by (metis of_nat_mult of_nat_le_iff)+
  have reads: "read_indices ?H ?A2 ?A3 ?A4 ?A5 (int k) =
      Ok (input_offsets k, send_sizes k, output_offsets k, recv_sizes k)" if k: "k < N" for k
  proof -
    have k': "0 \<le> int k" "int k < int N" using k by simp_all
    note g = staged_get [OF N(2) k', where dev = "device_memory c" and base = base
        and ?s2.0 = "source_buffer b2" and ?s3.0 = "source_buffer b3"
        and ?s4.0 = "source_buffer b4" and ?s5.0 = "source_buffer b5" and h = "host w"]
    from vals k have v: "device_array c b2 (int k) = Ok (input_offsets k)"
      "device_array c b3 (int k) = Ok (send_sizes k)"
      "device_array c b4 (int k) = Ok (output_offsets k)"
      "device_array c b5 (int k) = Ok (recv_sizes k)"
      by simp_all
    have "get ?H ?A2 (int k) = Ok (input_offsets k)"
      using g(1) [OF z(1)] v(1) by (simp only: device_array_def)
    moreover have "get ?H ?A3 (int k) = Ok (send_sizes k)"
      using g(2) [OF z(2)] v(2) by (simp only: device_array_def)
    moreover have "get ?H ?A4 (int k) = Ok (output_offsets k)"
      using g(3) [OF z(3)] v(3) by (simp only: device_array_def)
    moreover have "get ?H ?A5 (int k) = Ok (recv_sizes k)"
      using g(4) [OF z(4)] v(4) by (simp only: device_array_def)
    ultimately show ?thesis by (simp only: read_indices_def result.case)
  qed
  have "\<forall>k. 0 \<le> k \<and> k < N \<longrightarrow>
      Send_status c k = None \<and> Recv_status c k = None \<and>
      read_indices (host ?W) ?A2 ?A3 ?A4 ?A5 (int k) =
        Ok (input_offsets k, send_sizes k, output_offsets k, recv_sizes k)"
    using peers reads by simp
  from peer_loop_success [OF this, of rres b0]
  have loop: "peer_loop c rres b0 ?A2 ?A3 ?A4 ?A5 0 (nat (sint nr)) ?W =
      (Ok (), ?W\<lparr>trace := trace ?W @
         peer_events rres b0 input_offsets send_sizes output_offsets recv_sizes [0..<N]\<rparr>)"
    by (simp only: N(1))
  have res: "RunRaggedAllToAll c rres [b0, b1, b2, b3, b4, b5] base w =
      end_group c (Ok (), ?W\<lparr>trace := trace ?W @
         peer_events rres b0 input_offsets send_sizes output_offsets recv_sizes [0..<N]\<rparr>)"
    by (simp only: run loop)
  show ?thesis
    using fin
    by (simp add: bufs res end_group_def issue_def new_events_def staging_copies_six
        peer_events_def send_event_def recv_event_def)
qed

lemma get_of_logical_value:
  assumes v: "logical_value m t p i = Some v" and s: "t = U32 \<longrightarrow> v < 2 ^ 31"
  shows "get m \<lparr>iod_element_type = t, iod_data = p\<rparr> i = Ok (word_of_int v)"
proof -
  from v have t: "t = S32 \<or> t = U32 \<or> t = S64 \<or> t = U64"
    by (auto simp: logical_value_def split: if_splits)
  show ?thesis
  proof (cases "t = S32 \<or> t = U32")
    case True
    have "v < 2 ^ 31"
    proof (cases "t = U32")
      case True
      with s show ?thesis by simp
    next
      case False
      with True v have "v = sint (load_int32 m (p + 4 * i))" by (simp add: logical_value_def)
      then show ?thesis using sint_lt [of "load_int32 m (p + 4 * i)"] by simp
    qed
    from narrow_value_scast [OF True v this] True show ?thesis
      by (auto simp: get_def)
  next
    case False
    with t have w: "t = S64 \<or> t = U64" by blast
    from wide_value_word [OF w v] w show ?thesis
      by (auto simp: get_def)
  qed
qed

text \<open>
  C1, as the code has it: in a run with six bindings in which every call succeeds, with
  \<open>N\<close> ranks and index arrays of at least \<open>N\<close> elements holding the values
  \<open>input_offsets k\<close>, \<open>send_sizes k\<close>, \<open>output_offsets k\<close> and \<open>recv_sizes k\<close>, every element of
  a \<open>U32\<close> array being below \<open>2^31\<close>, the events between \<open>GroupStart\<close> and \<open>GroupEnd\<close> are,
  for the peers \<open>0, ..., N - 1\<close> in ascending order, one \<open>Send\<close> of the slice of the payload
  source from element \<open>input_offsets k * rres\<close> of \<open>send_sizes k * rres\<close> elements, then one
  \<open>Recv\<close> of the slice of the payload destination from element \<open>output_offsets k * rres\<close> of
  \<open>recv_sizes k * rres\<close> elements, whatever the sizes are (zero included). The products
  are 64-bit.
\<close>

theorem RunRaggedAllToAll_transfers:
  assumes bufs: "buffers = [b0, b1, b2, b3, b4, b5]"
    and ok: "MaybeRegisterBuffers_status c = None" "NumRanks_result c = Inr nr"
      "Memcpy_status c 2 = None" "Memcpy_status c 3 = None" "Memcpy_status c 4 = None"
      "Memcpy_status c 5 = None" "BlockHostUntilDone_status c = None"
      "GroupStart_status c = None"
    and fin: "GroupEnd_status c = None"
    and N: "N = nat (sint nr)" "int N \<le> element_count b2"
    and peers: "\<forall>k<N. Send_status c k = None \<and> Recv_status c k = None"
    and sizes: "index_width (element_type b2) * N \<le> size_bytes (source_buffer b2)"
      "index_width (element_type b3) * N \<le> size_bytes (source_buffer b3)"
      "index_width (element_type b4) * N \<le> size_bytes (source_buffer b4)"
      "index_width (element_type b5) * N \<le> size_bytes (source_buffer b5)"
    and vals: "\<forall>k<N.
      logical_value (device_memory c) (element_type b2) (opaque (source_buffer b2)) (int k) =
        Some (input_offsets k) \<and>
      logical_value (device_memory c) (element_type b3) (opaque (source_buffer b3)) (int k) =
        Some (send_sizes k) \<and>
      logical_value (device_memory c) (element_type b4) (opaque (source_buffer b4)) (int k) =
        Some (output_offsets k) \<and>
      logical_value (device_memory c) (element_type b5) (opaque (source_buffer b5)) (int k) =
        Some (recv_sizes k)"
    and low: "\<forall>k<N.
      (element_type b2 = U32 \<longrightarrow> input_offsets k < 2 ^ 31) \<and>
      (element_type b3 = U32 \<longrightarrow> send_sizes k < 2 ^ 31) \<and>
      (element_type b4 = U32 \<longrightarrow> output_offsets k < 2 ^ 31) \<and>
      (element_type b5 = U32 \<longrightarrow> recv_sizes k < 2 ^ 31)"
  shows "fst (RunRaggedAllToAll c rres buffers base w) = Ok () \<and>
         new_events w (snd (RunRaggedAllToAll c rres buffers base w)) =
           [MaybeRegisterBuffers, NumRanks] @ staging_copies buffers base
           @ [BlockHostUntilDone, GroupStart]
           @ concat (map (\<lambda>k.
                [Send (Slice (source_buffer b0) (element_type b0)
                         (word_of_int (input_offsets k) * rres)
                         (word_of_int (send_sizes k) * rres))
                   (element_type b0) (word_of_int (send_sizes k) * rres) k,
                 Recv (Slice (destination_buffer b0) (element_type b0)
                         (word_of_int (output_offsets k) * rres)
                         (word_of_int (recv_sizes k) * rres))
                   (element_type b0) (word_of_int (recv_sizes k) * rres) k]) [0..<N])
           @ [GroupEnd]"
proof -
  have "\<forall>k<N. device_array c b2 (int k) = Ok (word_of_int (input_offsets k)) \<and>
      device_array c b3 (int k) = Ok (word_of_int (send_sizes k)) \<and>
      device_array c b4 (int k) = Ok (word_of_int (output_offsets k)) \<and>
      device_array c b5 (int k) = Ok (word_of_int (recv_sizes k))"
    using vals low by (simp add: device_array_def get_of_logical_value)
  from RunRaggedAllToAll_decoded [OF bufs ok fin N peers sizes this]
  show ?thesis .
qed

text \<open>
  The scenario of the spec, through the theorem: peer 0 sends elements 0 to 7 and
  receives into elements 4 to 7; peer 1 sends elements 8 to 11 and receives into elements
  0 to 7. Then a run over arrays of the four types, with two-byte values and a negative
  \<open>S32\<close> element.
\<close>

theorem RunRaggedAllToAll_transfers_witness:
  "fst (RunRaggedAllToAll ok_collaborators 4 scenario_buffers 5000 empty_world) = Ok () \<and>
   new_events empty_world
       (snd (RunRaggedAllToAll ok_collaborators 4 scenario_buffers 5000 empty_world)) =
     [MaybeRegisterBuffers, NumRanks,
      Memcpy 5000 (DeviceMemoryBase 1000 8) 8, Memcpy 5016 (DeviceMemoryBase 2000 8) 8,
      Memcpy 5032 (DeviceMemoryBase 3000 8) 8, Memcpy 5048 (DeviceMemoryBase 4000 8) 8,
      BlockHostUntilDone, GroupStart,
      Send (Slice (DeviceMemoryBase 100 48) F32 0 8) F32 8 0,
      Recv (Slice (DeviceMemoryBase 200 48) F32 4 4) F32 4 0,
      Send (Slice (DeviceMemoryBase 100 48) F32 8 4) F32 4 1,
      Recv (Slice (DeviceMemoryBase 200 48) F32 0 8) F32 8 1,
      GroupEnd] \<and>
   slice_elements (Slice (DeviceMemoryBase 100 48) F32 0 8) = {0..7} \<and>
   slice_elements (Slice (DeviceMemoryBase 100 48) F32 8 4) = {8..11} \<and>
   slice_elements (Slice (DeviceMemoryBase 200 48) F32 4 4) = {4..7} \<and>
   slice_elements (Slice (DeviceMemoryBase 200 48) F32 0 8) = {0..7} \<and>
   fst (RunRaggedAllToAll wide_collaborators 4 wide_buffers 5000 empty_world) = Ok () \<and>
   new_events empty_world
       (snd (RunRaggedAllToAll wide_collaborators 4 wide_buffers 5000 empty_world)) =
     [MaybeRegisterBuffers, NumRanks,
      Memcpy 5000 (DeviceMemoryBase 1000 16) 16, Memcpy 5016 (DeviceMemoryBase 2000 16) 16,
      Memcpy 5032 (DeviceMemoryBase 3000 8) 8, Memcpy 5048 (DeviceMemoryBase 4000 8) 8,
      BlockHostUntilDone, GroupStart,
      Send (Slice (DeviceMemoryBase 100 48) F32 0 1032) F32 1032 0,
      Recv (Slice (DeviceMemoryBase 200 48) F32 4 4) F32 4 0,
      Send (Slice (DeviceMemoryBase 100 48) F32 1032 4) F32 4 1,
      Recv (Slice (DeviceMemoryBase 200 48) F32 0xFFFFFFFFFFFFFFFC 8) F32 8 1,
      GroupEnd] \<and>
   slice_start (Slice (DeviceMemoryBase 200 48) F32 0xFFFFFFFFFFFFFFFC 8) = - 4"
proof -
  have two: "k < (2::nat) \<longleftrightarrow> k = 0 \<or> k = 1" for k by auto
  have upt2: "[0..<2] = [0, Suc 0]" by (simp add: upt_rec)
  have vals: "\<forall>k<2.
      logical_value (device_memory ok_collaborators) (element_type (index_binding 1000))
        (opaque (source_buffer (index_binding 1000))) (int k) = Some ([0, 2] ! k) \<and>
      logical_value (device_memory ok_collaborators) (element_type (index_binding 2000))
        (opaque (source_buffer (index_binding 2000))) (int k) = Some ([2, 1] ! k) \<and>
      logical_value (device_memory ok_collaborators) (element_type (index_binding 3000))
        (opaque (source_buffer (index_binding 3000))) (int k) = Some ([1, 0] ! k) \<and>
      logical_value (device_memory ok_collaborators) (element_type (index_binding 4000))
        (opaque (source_buffer (index_binding 4000))) (int k) = Some ([1, 2] ! k)"
    by (auto simp: two logical_value_def load_int32_def index_binding_def
        ok_collaborators_def scenario_device_def)
  have low: "\<forall>k<2.
      (element_type (index_binding 1000) = U32 \<longrightarrow> [0, 2] ! k < (2 ^ 31 :: int)) \<and>
      (element_type (index_binding 2000) = U32 \<longrightarrow> [2, 1] ! k < (2 ^ 31 :: int)) \<and>
      (element_type (index_binding 3000) = U32 \<longrightarrow> [1, 0] ! k < (2 ^ 31 :: int)) \<and>
      (element_type (index_binding 4000) = U32 \<longrightarrow> [1, 2] ! k < (2 ^ 31 :: int))"
    by (simp add: index_binding_def)
  have run: "fst (RunRaggedAllToAll ok_collaborators 4 scenario_buffers 5000 empty_world) = Ok () \<and>
    new_events empty_world
       (snd (RunRaggedAllToAll ok_collaborators 4 scenario_buffers 5000 empty_world)) =
           [MaybeRegisterBuffers, NumRanks] @ staging_copies scenario_buffers 5000
           @ [BlockHostUntilDone, GroupStart]
           @ concat (map (\<lambda>k.
                [Send (Slice (source_buffer payload) (element_type payload)
                         (word_of_int ([0, 2] ! k) * 4) (word_of_int ([2, 1] ! k) * 4))
                   (element_type payload) (word_of_int ([2, 1] ! k) * 4) k,
                 Recv (Slice (destination_buffer payload) (element_type payload)
                         (word_of_int ([1, 0] ! k) * 4) (word_of_int ([1, 2] ! k) * 4))
                   (element_type payload) (word_of_int ([1, 2] ! k) * 4) k]) [0..<2])
           @ [GroupEnd]"
    by (rule RunRaggedAllToAll_transfers [where ?b1.0 = output_binding and nr = 2,
          OF _ _ _ _ _ _ _ _ _ _ _ _ _ _ _ _ _ vals low])
      (simp_all add: scenario_buffers_def ok_collaborators_def index_binding_def
        index_width_def)
  have wvals: "\<forall>k<2.
      logical_value (device_memory wide_collaborators) (element_type (typed_binding S64 1000 16))
        (opaque (source_buffer (typed_binding S64 1000 16))) (int k) = Some ([0, 258] ! k) \<and>
      logical_value (device_memory wide_collaborators) (element_type (typed_binding U64 2000 16))
        (opaque (source_buffer (typed_binding U64 2000 16))) (int k) = Some ([258, 1] ! k) \<and>
      logical_value (device_memory wide_collaborators) (element_type (typed_binding S32 3000 8))
        (opaque (source_buffer (typed_binding S32 3000 8))) (int k) = Some ([1, - 1] ! k) \<and>
      logical_value (device_memory wide_collaborators) (element_type (typed_binding U32 4000 8))
        (opaque (source_buffer (typed_binding U32 4000 8))) (int k) = Some ([1, 2] ! k)"
    by (auto simp: two logical_value_def load_int32_def load_int64_def typed_binding_def
        wide_collaborators_def ok_collaborators_def wide_device_def)
  have wlow: "\<forall>k<2.
      (element_type (typed_binding S64 1000 16) = U32 \<longrightarrow> [0, 258] ! k < (2 ^ 31 :: int)) \<and>
      (element_type (typed_binding U64 2000 16) = U32 \<longrightarrow> [258, 1] ! k < (2 ^ 31 :: int)) \<and>
      (element_type (typed_binding S32 3000 8) = U32 \<longrightarrow> [1, - 1] ! k < (2 ^ 31 :: int)) \<and>
      (element_type (typed_binding U32 4000 8) = U32 \<longrightarrow> [1, 2] ! k < (2 ^ 31 :: int))"
    by (auto simp: two typed_binding_def)
  have wrun: "fst (RunRaggedAllToAll wide_collaborators 4 wide_buffers 5000 empty_world) = Ok () \<and>
    new_events empty_world
       (snd (RunRaggedAllToAll wide_collaborators 4 wide_buffers 5000 empty_world)) =
           [MaybeRegisterBuffers, NumRanks] @ staging_copies wide_buffers 5000
           @ [BlockHostUntilDone, GroupStart]
           @ concat (map (\<lambda>k.
                [Send (Slice (source_buffer payload) (element_type payload)
                         (word_of_int ([0, 258] ! k) * 4) (word_of_int ([258, 1] ! k) * 4))
                   (element_type payload) (word_of_int ([258, 1] ! k) * 4) k,
                 Recv (Slice (destination_buffer payload) (element_type payload)
                         (word_of_int ([1, - 1] ! k) * 4) (word_of_int ([1, 2] ! k) * 4))
                   (element_type payload) (word_of_int ([1, 2] ! k) * 4) k]) [0..<2])
           @ [GroupEnd]"
    by (rule RunRaggedAllToAll_transfers [where ?b1.0 = output_binding and nr = 2,
          OF _ _ _ _ _ _ _ _ _ _ _ _ _ _ _ _ _ wvals wlow])
      (simp_all add: wide_buffers_def wide_collaborators_def ok_collaborators_def
        typed_binding_def index_width_def)
  have elems: "slice_elements (Slice (DeviceMemoryBase 100 48) F32 0 8) = {0..7}"
    "slice_elements (Slice (DeviceMemoryBase 100 48) F32 8 4) = {8..11}"
    "slice_elements (Slice (DeviceMemoryBase 200 48) F32 4 4) = {4..7}"
    "slice_elements (Slice (DeviceMemoryBase 200 48) F32 0 8) = {0..7}"
    by (auto simp: slice_elements_def)
  have start: "slice_start (Slice (DeviceMemoryBase 200 48) F32 0xFFFFFFFFFFFFFFFC 8) = - 4"
    by (simp add: slice_start_def)
  have neg: "(word_of_int (- 1) * 4 :: 64 word) = 0xFFFFFFFFFFFFFFFC" by simp
  from run wrun elems start show ?thesis
    by (simp add: upt2 staging_copies_def scenario_buffers_def wide_buffers_def
        index_binding_def typed_binding_def payload_def neg)
qed

text \<open>
  C1 as stated fails on an unsigned narrow array: \<open>input_offsets[0]\<close> is \<open>2^31\<close> in a \<open>U32\<close>
  array, the row has four elements, and the send slice of peer 0 starts at element
  \<open>-2^33\<close>, not at \<open>2^31 * 4 = 2^33\<close>.
\<close>

theorem unsigned_offset_counterexample:
  "logical_value (device_memory high_offset_collaborators) U32 1000 0 = Some 2147483648 \<and>
   element_type (high_offset_buffers ! 2) = U32 \<and>
   source_buffer (high_offset_buffers ! 2) = DeviceMemoryBase 1000 8 \<and>
   fst (RunRaggedAllToAll high_offset_collaborators 4 high_offset_buffers 5000 empty_world) =
     Ok () \<and>
   new_events empty_world
       (snd (RunRaggedAllToAll high_offset_collaborators 4 high_offset_buffers 5000
          empty_world)) ! 8 =
     Send (Slice (DeviceMemoryBase 100 48) F32 0xFFFFFFFE00000000 8) F32 8 0 \<and>
   slice_start (Slice (DeviceMemoryBase 100 48) F32 0xFFFFFFFE00000000 8) = - 8589934592 \<and>
   (2147483648 * 4 :: int) = 8589934592"
  by (simp add: high_offset_collaborators_def high_offset_buffers_def high_offset_device_def
      typed_binding_def scenario_defs run_defs new_events_def logical_value_def
      slice_start_def)

end
